theory Spec2Isabelle
  imports Complex_Main "HOL-Library.Sublist"
begin

section \<open>JavaScript values\<close>

text \<open>
  The server (\<^verbatim>\<open>server.js\<close>) handles values that come out of \<^verbatim>\<open>JSON.parse\<close>
  (the request body, through \<^verbatim>\<open>express.json\<close>) and strings (headers, query
  parameters, environment variables).

  A JavaScript number is a double. A finite double is a rational number, so \<open>Fin q\<close>
  carries its exact value; the three remaining constructors are the non-finite doubles.
  Every statement proved for all \<open>Fin q\<close> therefore holds for all finite doubles.
  The two zeros are not told apart: both are falsy and the server never divides.

  A string is a list of 8-bit characters (the UTF-8 bytes of the text); the server only
  compares strings, cuts an ASCII prefix off one and concatenates them.

  \<open>None\<close> of type \<open>json option\<close> is \<^verbatim>\<open>undefined\<close>.
\<close>

datatype jsnum = NaN | PosInf | NegInf | Fin rat

datatype json =
    JNull
  | JBool bool
  | JNum jsnum
  | JStr string
  | JArr "json list"
  | JObj "(string \<times> json) list"

text \<open>What a \<^verbatim>\<open>throw\<close> carries. \<open>TypeError\<close> is the engine's "Cannot convert object
  to primitive value"; \<open>ValidationError p\<close> is Mongoose's rejection of path \<open>p\<close>;
  \<open>StoreError m\<close> is any failure of the database driver, \<open>m\<close> its text.\<close>

datatype js_error = TypeError | ValidationError string | StoreError string

text \<open>\<^verbatim>\<open>ToBoolean\<close>: the test behind \<^verbatim>\<open>||\<close>, \<^verbatim>\<open>?:\<close> and \<^verbatim>\<open>!\<close>.\<close>

fun ToBoolean :: "json option \<Rightarrow> bool" where
  "ToBoolean None = False"
| "ToBoolean (Some JNull) = False"
| "ToBoolean (Some (JBool b)) = b"
| "ToBoolean (Some (JNum NaN)) = False"
| "ToBoolean (Some (JNum (Fin q))) = (q \<noteq> 0)"
| "ToBoolean (Some (JNum _)) = True"
| "ToBoolean (Some (JStr s)) = (s \<noteq> [])"
| "ToBoolean (Some (JArr _)) = True"
| "ToBoolean (Some (JObj _)) = True"

text \<open>
  Property read \<^verbatim>\<open>v.name\<close> on a defined, non-null value, for the names the server
  reads (\<^verbatim>\<open>timestamp\<close>, \<^verbatim>\<open>score\<close>, \<^verbatim>\<open>best\<close>, \<^verbatim>\<open>snapshot_filename\<close>,
  \<^verbatim>\<open>image_url\<close>, \<^verbatim>\<open>cloudinary_public_id\<close>, \<^verbatim>\<open>label\<close>, \<^verbatim>\<open>conf\<close>): none of
  them is an array index, \<^verbatim>\<open>length\<close> or a name found on a prototype, so only a parsed
  object's own properties can answer.
\<close>

fun get_prop :: "json \<Rightarrow> string \<Rightarrow> json option" where
  "get_prop (JObj kvs) name = map_of kvs name"
| "get_prop _ name = None"

text \<open>\<^verbatim>\<open>a || b\<close> where \<open>a\<close> is a string or \<^verbatim>\<open>undefined\<close> and \<open>b\<close> a string.\<close>

fun or_string :: "string option \<Rightarrow> string \<Rightarrow> string" where
  "or_string None d = d"
| "or_string (Some s) d = (if s = [] then d else s)"

section \<open>Numbers and their text\<close>

function dec_digits :: "int \<Rightarrow> string" where
  "dec_digits n =
     (if n < 10 then [''0123456789'' ! nat n]
      else dec_digits (n div 10) @ [''0123456789'' ! nat (n mod 10)])"
  by pat_completeness auto
termination by (relation "measure nat") auto

declare dec_digits.simps [simp del]

function digit_count :: "int \<Rightarrow> int" where
  "digit_count n = (if n < 10 then 1 else 1 + digit_count (n div 10))"
  by pat_completeness auto
termination by (relation "measure nat") auto

declare digit_count.simps [simp del]

function bit_length :: "int \<Rightarrow> int" where
  "bit_length n = (if n \<le> 0 then 0 else 1 + bit_length (n div 2))"
  by pat_completeness auto
termination by (relation "measure nat") auto

declare bit_length.simps [simp del]

definition pow_int :: "rat \<Rightarrow> int \<Rightarrow> rat" where
  "pow_int b e = (if 0 \<le> e then b ^ nat e else 1 / b ^ nat (- e))"

text \<open>\<open>floor_log2 q\<close> is the \<open>e\<close> with \<open>2 ^ e \<le> q < 2 ^ (e + 1)\<close>, for \<open>0 < q\<close>.\<close>

definition floor_log2 :: "rat \<Rightarrow> int" where
  "floor_log2 q =
     (if 1 \<le> q then bit_length \<lfloor>q\<rfloor> - 1 else - bit_length (\<lceil>1 / q\<rceil> - 1))"

definition round_half_even :: "rat \<Rightarrow> int" where
  "round_half_even q =
     (let f = \<lfloor>q\<rfloor>; r = q - of_int f in
      if r < 1 / 2 then f else if 1 / 2 < r then f + 1 else if even f then f else f + 1)"

text \<open>
  The double nearest to a mathematical value (ties to even): 53 significant bits, the
  least exponent \<open>- 1022\<close> (below it the spacing stays \<open>2 ^ - 1074\<close>), and an infinity from
  half a step above the largest double on.
\<close>

definition round_pos :: "rat \<Rightarrow> jsnum" where
  "round_pos q =
     (if 2 ^ 1024 - 2 ^ 970 \<le> q then PosInf
      else let e = max (floor_log2 q) (- 1022); ulp = pow_int 2 (e - 52)
           in Fin (of_int (round_half_even (q / ulp)) * ulp))"

fun neg_num :: "jsnum \<Rightarrow> jsnum" where
  "neg_num NaN = NaN"
| "neg_num PosInf = NegInf"
| "neg_num NegInf = PosInf"
| "neg_num (Fin q) = Fin (- q)"

definition round_double :: "rat \<Rightarrow> jsnum" where
  "round_double q =
     (if q = 0 then Fin 0 else if 0 < q then round_pos q else neg_num (round_pos (- q)))"

subsection \<open>\<^verbatim>\<open>Number::toString\<close>\<close>

text \<open>\<open>decimal_exponent q\<close> is the \<open>n\<close> with \<open>10 ^ (n - 1) \<le> q < 10 ^ n\<close>, for \<open>0 < q\<close>.\<close>

definition decimal_exponent :: "rat \<Rightarrow> int" where
  "decimal_exponent q =
     (if 1 \<le> q then digit_count \<lfloor>q\<rfloor> else 1 - digit_count (\<lceil>1 / q\<rceil> - 1))"

text \<open>
  The shortest decimal that reads back as the double \<open>q\<close>: the least number \<open>k\<close> of
  digits for which some \<open>s\<close> of \<open>k\<close> digits has \<open>s * 10 ^ (n - k)\<close> round to \<open>q\<close>; of two
  such \<open>s\<close> the nearer one, and the even one when they are equally near. Seventeen
  digits always suffice for a double, which bounds the search.
\<close>

fun shortest_digits :: "nat \<Rightarrow> int \<Rightarrow> rat \<Rightarrow> int \<Rightarrow> int \<times> int" where
  "shortest_digits 0 k q n = (\<lfloor>q / pow_int 10 (n - k)\<rfloor>, n)"
| "shortest_digits (Suc fuel) k q n =
     (let sc = pow_int 10 (n - k);
          lo = \<lfloor>q / sc\<rfloor>;
          hi = lo + 1;
          ok_lo = (round_double (of_int lo * sc) = Fin q);
          ok_hi = (round_double (of_int hi * sc) = Fin q);
          d_lo = q - of_int lo * sc;
          d_hi = of_int hi * sc - q;
          pick_lo = (ok_lo \<and> (if ok_hi then d_lo < d_hi \<or> (d_lo = d_hi \<and> even lo) else True))
      in if pick_lo then (lo, n)
         else if ok_hi then (if hi = 10 ^ nat k then (10 ^ nat (k - 1), n + 1) else (hi, n))
         else shortest_digits fuel (k + 1) q n)"

definition zeros :: "int \<Rightarrow> string" where
  "zeros n = replicate (nat n) CHR ''0''"

definition Number_toString_pos :: "rat \<Rightarrow> string" where
  "Number_toString_pos q =
     (case shortest_digits 17 1 q (decimal_exponent q) of (s, n) \<Rightarrow>
        let ds = dec_digits s; k = int (length ds) in
        if - 5 \<le> n \<and> n \<le> 21 then
          (if k \<le> n then ds @ zeros (n - k)
           else if 0 < n then take (nat n) ds @ ''.'' @ drop (nat n) ds
           else ''0.'' @ zeros (- n) @ ds)
        else
          (let e = n - 1; ex = (if e < 0 then ''-'' else ''+'') @ dec_digits \<bar>e\<bar> in
           if k = 1 then ds @ ''e'' @ ex
           else take 1 ds @ ''.'' @ drop 1 ds @ ''e'' @ ex))"

fun Number_toString :: "jsnum \<Rightarrow> string" where
  "Number_toString NaN = ''NaN''"
| "Number_toString PosInf = ''Infinity''"
| "Number_toString NegInf = ''-Infinity''"
| "Number_toString (Fin q) =
     (if q = 0 then ''0''
      else if q < 0 then ''-'' @ Number_toString_pos (- q)
      else Number_toString_pos q)"

subsection \<open>\<^verbatim>\<open>Number.prototype.toFixed\<close>\<close>

text \<open>
  \<^verbatim>\<open>x.toFixed(f)\<close>: a non-finite \<open>x\<close> and an \<open>x\<close> of magnitude \<open>10 ^ 21\<close> or more are
  printed as \<^verbatim>\<open>String(x)\<close>; otherwise the integer \<open>n\<close> nearest to \<open>x * 10 ^ f\<close> (the larger
  of two) is printed with a point before its last \<open>f\<close> digits.
\<close>

fun Number_toFixed :: "jsnum \<Rightarrow> nat \<Rightarrow> string" where
  "Number_toFixed (Fin q) f =
     (let s = (if q < 0 then ''-'' else []); x = \<bar>q\<bar> in
      if 10 ^ 21 \<le> x then s @ Number_toString (Fin x)
      else
        let n = \<lfloor>x * 10 ^ f + 1 / 2\<rfloor>;
            m = dec_digits n;
            m' = (if f \<noteq> 0 \<and> length m \<le> f
                  then replicate (f + 1 - length m) CHR ''0'' @ m else m);
            k = length m'
        in if f \<noteq> 0 then s @ take (k - f) m' @ ''.'' @ drop (k - f) m' else s @ m')"
| "Number_toFixed x f = Number_toString x"

subsection \<open>\<^verbatim>\<open>StringToNumber\<close>\<close>

text \<open>
  White space that \<^verbatim>\<open>Number\<close> strips from both ends of a string: TAB, LF, VT, FF, CR,
  SP and, as UTF-8, U+00A0, U+1680, U+2000 to U+200A, U+2028, U+2029, U+202F, U+205F,
  U+3000 and U+FEFF.
\<close>

definition white_space :: "string list" where
  "white_space =
     map (\<lambda>c. [c]) [CHR 0x09, CHR 0x0A, CHR 0x0B, CHR 0x0C, CHR 0x0D, CHR 0x20] @
     [[CHR 0xC2, CHR 0xA0], [CHR 0xE1, CHR 0x9A, CHR 0x80]] @
     map (\<lambda>c. [CHR 0xE2, CHR 0x80, c])
       [CHR 0x80, CHR 0x81, CHR 0x82, CHR 0x83, CHR 0x84, CHR 0x85, CHR 0x86, CHR 0x87,
        CHR 0x88, CHR 0x89, CHR 0x8A, CHR 0xA8, CHR 0xA9, CHR 0xAF] @
     [[CHR 0xE2, CHR 0x81, CHR 0x9F], [CHR 0xE3, CHR 0x80, CHR 0x80],
      [CHR 0xEF, CHR 0xBB, CHR 0xBF]]"

fun drop_leading :: "string list \<Rightarrow> string \<Rightarrow> string" where
  "drop_leading ws [] = []"
| "drop_leading ws (c # cs) =
     (case find (\<lambda>w. take (length w) (c # cs) = w) ws of
        None \<Rightarrow> c # cs
      | Some w \<Rightarrow> drop_leading ws (drop (length w - 1) cs))"

definition trim :: "string \<Rightarrow> string" where
  "trim s = rev (drop_leading (map rev white_space) (rev (drop_leading white_space s)))"

definition is_digit :: "char \<Rightarrow> bool" where
  "is_digit c = (48 \<le> (of_char c :: nat) \<and> (of_char c :: nat) \<le> 57)"

text \<open>The value of a digit in a radix up to 16, \<open>None\<close> for any other character.\<close>

definition digit_value :: "int \<Rightarrow> char \<Rightarrow> int option" where
  "digit_value radix c =
     (let n = int (of_char c);
          v = (if 48 \<le> n \<and> n \<le> 57 then n - 48
               else if 97 \<le> n \<and> n \<le> 102 then n - 87
               else if 65 \<le> n \<and> n \<le> 70 then n - 55
               else 16)
      in if v < radix then Some v else None)"

fun digits_value :: "int \<Rightarrow> int \<Rightarrow> string \<Rightarrow> int option" where
  "digits_value radix acc [] = Some acc"
| "digits_value radix acc (c # cs) =
     (case digit_value radix c of
        None \<Rightarrow> None
      | Some v \<Rightarrow> digits_value radix (radix * acc + v) cs)"

text \<open>One or more digits of the radix, and nothing else.\<close>

definition integer_literal :: "int \<Rightarrow> string \<Rightarrow> int option" where
  "integer_literal radix s = (if s = [] then None else digits_value radix 0 s)"

definition split_sign :: "string \<Rightarrow> int \<times> string" where
  "split_sign s =
     (case s of
        c # cs \<Rightarrow> if c = CHR ''+'' then (1, cs) else if c = CHR ''-'' then (- 1, cs) else (1, s)
      | [] \<Rightarrow> (1, s))"

text \<open>
  \<^verbatim>\<open>StrUnsignedDecimalLiteral\<close> without \<^verbatim>\<open>Infinity\<close>: digits, an optional point and
  digits (a digit on one side of the point at least), an optional exponent. The result
  is the mathematical value of the literal, \<open>None\<close> when the text is no such literal.
\<close>

definition unsigned_decimal :: "string \<Rightarrow> rat option" where
  "unsigned_decimal s =
     (let ip = takeWhile is_digit s;
          r1 = dropWhile is_digit s;
          dotted = (r1 \<noteq> [] \<and> hd r1 = CHR ''.'');
          fp = (if dotted then takeWhile is_digit (tl r1) else []);
          r2 = (if dotted then dropWhile is_digit (tl r1) else r1);
          ex = (if r2 = [] then Some 0
                else if hd r2 = CHR ''e'' \<or> hd r2 = CHR ''E'' then
                  (case split_sign (tl r2) of (sg, ds) \<Rightarrow>
                     map_option (\<lambda>v. sg * v) (integer_literal 10 ds))
                else None)
      in if ip = [] \<and> fp = [] then None
         else (case (digits_value 10 0 (ip @ fp), ex) of
                 (Some m, Some e) \<Rightarrow> Some (of_int m * pow_int 10 (e - int (length fp)))
               | _ \<Rightarrow> None))"

definition non_decimal :: "string \<Rightarrow> int option" where
  "non_decimal s =
     (case s of
        z # x # ds \<Rightarrow>
          if z \<noteq> CHR ''0'' then None
          else if x = CHR ''x'' \<or> x = CHR ''X'' then integer_literal 16 ds
          else if x = CHR ''o'' \<or> x = CHR ''O'' then integer_literal 8 ds
          else if x = CHR ''b'' \<or> x = CHR ''B'' then integer_literal 2 ds
          else None
      | _ \<Rightarrow> None)"

text \<open>\<^verbatim>\<open>Number(s)\<close> for a string \<open>s\<close>: \<open>NaN\<close> when the trimmed text is not a numeric
  literal, zero when it is empty.\<close>

definition StringToNumber :: "string \<Rightarrow> jsnum" where
  "StringToNumber str =
     (let s = trim str in
      if s = [] then Fin 0
      else (case non_decimal s of
              Some n \<Rightarrow> round_double (of_int n)
            | None \<Rightarrow>
                (case split_sign s of (sg, u) \<Rightarrow>
                   if u = ''Infinity'' then (if sg < 0 then NegInf else PosInf)
                   else (case unsigned_decimal u of
                           None \<Rightarrow> NaN
                         | Some v \<Rightarrow> round_double (of_int sg * v)))))"

subsection \<open>\<^verbatim>\<open>ToString\<close> and \<^verbatim>\<open>ToNumber\<close> of a parsed value\<close>

text \<open>
  A parsed object has \<^verbatim>\<open>Object.prototype\<close> behind it. Converting it to a primitive
  looks up \<^verbatim>\<open>toString\<close> and \<^verbatim>\<open>valueOf\<close>: an own property of either name shadows the
  inherited method and, being data, cannot be called; the inherited \<^verbatim>\<open>valueOf\<close> returns
  the object itself, which is no primitive. So the conversion gives
  \<^verbatim>\<open>"[object Object]"\<close> when the object has no own \<^verbatim>\<open>toString\<close> and throws a
  \<open>TypeError\<close> when it has one. An array is joined with commas, \<^verbatim>\<open>null\<close> elements as
  empty text.
\<close>

fun join :: "string list \<Rightarrow> string" where
  "join [] = []"
| "join [s] = s"
| "join (s # t # ss) = s @ '','' @ join (t # ss)"

fun ToString :: "json \<Rightarrow> js_error + string"
  and ToString_elements :: "json list \<Rightarrow> js_error + string list" where
  "ToString JNull = Inr ''null''"
| "ToString (JBool b) = Inr (if b then ''true'' else ''false'')"
| "ToString (JNum n) = Inr (Number_toString n)"
| "ToString (JStr s) = Inr s"
| "ToString (JArr xs) =
     (case ToString_elements xs of Inl e \<Rightarrow> Inl e | Inr ss \<Rightarrow> Inr (join ss))"
| "ToString (JObj kvs) =
     (if map_of kvs ''toString'' = None then Inr ''[object Object]'' else Inl TypeError)"
| "ToString_elements [] = Inr []"
| "ToString_elements (x # xs) =
     (case (if x = JNull then Inr [] else ToString x) of
        Inl e \<Rightarrow> Inl e
      | Inr s \<Rightarrow> (case ToString_elements xs of Inl e \<Rightarrow> Inl e | Inr ss \<Rightarrow> Inr (s # ss)))"

text \<open>\<^verbatim>\<open>Number(v)\<close> for a defined \<open>v\<close>. An object or an array goes through its text.\<close>

fun ToNumber :: "json \<Rightarrow> js_error + jsnum" where
  "ToNumber JNull = Inr (Fin 0)"
| "ToNumber (JBool b) = Inr (Fin (if b then 1 else 0))"
| "ToNumber (JNum n) = Inr n"
| "ToNumber (JStr s) = Inr (StringToNumber s)"
| "ToNumber v = (case ToString v of Inl e \<Rightarrow> Inl e | Inr s \<Rightarrow> Inr (StringToNumber s))"

subsection \<open>\<^verbatim>\<open>Math.min\<close> and \<^verbatim>\<open>Math.max\<close>\<close>

fun Math_min :: "jsnum \<Rightarrow> jsnum \<Rightarrow> jsnum" where
  "Math_min NaN _ = NaN"
| "Math_min _ NaN = NaN"
| "Math_min NegInf _ = NegInf"
| "Math_min _ NegInf = NegInf"
| "Math_min PosInf b = b"
| "Math_min a PosInf = a"
| "Math_min (Fin x) (Fin y) = Fin (min x y)"

fun Math_max :: "jsnum \<Rightarrow> jsnum \<Rightarrow> jsnum" where
  "Math_max NaN _ = NaN"
| "Math_max _ NaN = NaN"
| "Math_max PosInf _ = PosInf"
| "Math_max _ PosInf = PosInf"
| "Math_max NegInf b = b"
| "Math_max a NegInf = a"
| "Math_max (Fin x) (Fin y) = Fin (max x y)"

subsection \<open>\<^verbatim>\<open>Date.prototype.toISOString\<close>\<close>

text \<open>
  A time value is a count of milliseconds since 1970-01-01T00:00:00Z. The date of a day
  number is found by the usual era arithmetic of the proleptic Gregorian calendar
  (years of 400 counted from 1 March of year 0).
\<close>

definition era_of :: "int \<Rightarrow> int" where
  "era_of days = (days + 719468) div 146097"

definition day_of_era :: "int \<Rightarrow> int" where
  "day_of_era days = (days + 719468) mod 146097"

definition year_of_era :: "int \<Rightarrow> int" where
  "year_of_era doe = (doe - doe div 1460 + doe div 36524 - doe div 146096) div 365"

definition day_of_year :: "int \<Rightarrow> int" where
  "day_of_year doe =
     doe - (365 * year_of_era doe + year_of_era doe div 4 - year_of_era doe div 100)"

text \<open>Months counted from March, which is 0.\<close>

definition month_index :: "int \<Rightarrow> int" where
  "month_index doy = (5 * doy + 2) div 153"

definition civil_month :: "int \<Rightarrow> int" where
  "civil_month days =
     (let mp = month_index (day_of_year (day_of_era days))
      in if mp < 10 then mp + 3 else mp - 9)"

definition civil_day :: "int \<Rightarrow> int" where
  "civil_day days =
     (let doy = day_of_year (day_of_era days)
      in doy - (153 * month_index doy + 2) div 5 + 1)"

definition civil_year :: "int \<Rightarrow> int" where
  "civil_year days =
     year_of_era (day_of_era days) + era_of days * 400 + (if civil_month days \<le> 2 then 1 else 0)"

definition pad :: "nat \<Rightarrow> int \<Rightarrow> string" where
  "pad w n = replicate (w - length (dec_digits n)) CHR ''0'' @ dec_digits n"

text \<open>A year from 0 to 9999 is printed with four digits, any other with a sign and six.\<close>

definition year_text :: "int \<Rightarrow> string" where
  "year_text y =
     (if 0 \<le> y \<and> y \<le> 9999 then pad 4 y
      else (if y < 0 then ''-'' else ''+'') @ pad 6 \<bar>y\<bar>)"

definition Date_toISOString :: "int \<Rightarrow> string" where
  "Date_toISOString t =
     (let days = t div 86400000; ms = t mod 86400000 in
      year_text (civil_year days) @ ''-'' @ pad 2 (civil_month days) @ ''-'' @
      pad 2 (civil_day days) @ ''T'' @
      pad 2 (ms div 3600000) @ '':'' @ pad 2 (ms div 60000 mod 60) @ '':'' @
      pad 2 (ms div 1000 mod 60) @ ''.'' @ pad 3 (ms mod 1000) @ ''Z'')"

section \<open>The server\<close>

subsection \<open>Configuration, requests, responses\<close>

text \<open>The environment variables read at start-up, each \<^verbatim>\<open>process.env.X || ""\<close>.\<close>

record config =
  API_KEY :: string
  WA_PHONE_NUMBER_ID :: string
  WA_ACCESS_TOKEN :: string
  WA_TO :: string

text \<open>
  \<^verbatim>\<open>req.query.limit\<close> as the query parser leaves it: a string, an array (a parameter
  given several times) or an object (bracket notation; the parser drops keys named like
  members of \<^verbatim>\<open>Object.prototype\<close>, so such an object converts to \<^verbatim>\<open>"[object Object]"\<close>).
\<close>

datatype query_value = QStr string | QArr "query_value list" | QObj

text \<open>
  What a handler reads of a request: the headers under their lower-case names, the body
  as \<^verbatim>\<open>express.json\<close> parsed it, the \<^verbatim>\<open>limit\<close> query parameter and the peer address
  of the socket.
\<close>

record request =
  headers :: "string \<rightharpoonup> string"
  body :: "json option"
  query_limit :: "query_value option"
  remoteAddress :: "string option"

text \<open>The paths of the schema that the handler fills, the type of \<^verbatim>\<open>best\<close> left open.\<close>

record 'b event_fields =
  timestamp :: string
  score :: string
  best :: 'b
  snapshot_filename :: string
  image_url :: string
  cloudinary_public_id :: string
  ip :: string
  user_agent :: string

text \<open>In the object the handler builds, \<^verbatim>\<open>best\<close> is \<^verbatim>\<open>null\<close>, an object or an array.\<close>

type_synonym event = "json event_fields"

text \<open>
  A document of the collection has the same paths, and three that the store adds:
  \<^verbatim>\<open>_id\<close>, \<^verbatim>\<open>received_at\<close> and the version key \<^verbatim>\<open>__v\<close> of Mongoose (the schema does
  not set \<^verbatim>\<open>versionKey\<close>). Its \<^verbatim>\<open>best\<close> may be missing: \<open>None\<close> is a document without
  that key.
\<close>

record 'b document = "'b event_fields" +
  doc_id :: string
  received_at :: int
  version_key :: nat

type_synonym FireEvent = "json option document"

text \<open>The four object literals passed to \<^verbatim>\<open>res.json\<close>, field by field.\<close>

datatype reply =
    Refused bool string
  | Failed bool string js_error
  | Stored bool string FireEvent
  | Listed bool nat "FireEvent list"

record response =
  status :: nat
  payload :: reply

subsection \<open>What a request does not decide\<close>

text \<open>
  \<open>handler_time\<close> is the clock when the handler runs \<^verbatim>\<open>new Date()\<close>, \<open>insert_time\<close> the
  clock when the schema default \<^verbatim>\<open>Date.now\<close> is taken, \<open>fresh_id\<close> the identifier the
  store assigns, \<open>db_failure\<close> a failure of the database (its text) if one occurs, and
  \<open>odd_limit_read\<close> what the database answers to a read whose limit is not a positive
  whole number, which the source does not determine.
\<close>

record env =
  handler_time :: int
  insert_time :: int
  fresh_id :: string
  db_failure :: "string option"
  odd_limit_read :: "js_error + FireEvent list"

text \<open>What becomes of the \<^verbatim>\<open>fetch\<close> to the messaging API: the network fails, or a
  response arrives with its \<^verbatim>\<open>ok\<close> flag and a body that parses as JSON or does not.\<close>

datatype fetch_outcome =
    NetworkError string
  | Answered bool "string + json"

datatype wa_error = FetchFailed string | BodyMalformed string | ApiError json

datatype wa_result = Skipped | Data json

record wa_request =
  url :: string
  authorization :: string
  content_type :: string
  wa_body :: json

datatype log_line =
    WhatsApp_sent wa_result
  | WhatsApp_failed wa_error
  | WA_TO_not_set

text \<open>The state a request can change: the collection in insertion order, the requests
  sent to the messaging API, and the lines written by \<^verbatim>\<open>console.log\<close>.\<close>

record server =
  fire_events :: "FireEvent list"
  outbox :: "wa_request list"
  console :: "log_line list"

subsection \<open>\<^verbatim>\<open>requireAuth\<close>\<close>

text \<open>\<open>None\<close> is \<^verbatim>\<open>next()\<close>; \<open>Some r\<close> is the response that ends the request.\<close>

definition requireAuth :: "config \<Rightarrow> request \<Rightarrow> response option" where
  "requireAuth cfg req =
     (if API_KEY cfg = [] then None
      else
        let auth = or_string (headers req ''authorization'') [];
            token = (if prefix ''Bearer '' auth then drop 7 auth else [])
        in if token \<noteq> API_KEY cfg
           then Some \<lparr>status = 401, payload = Refused False ''Unauthorized''\<rparr>
           else None)"

subsection \<open>The store\<close>

text \<open>
  The schema does not set \<^verbatim>\<open>minimize\<close>, so Mongoose writes a document without its empty
  objects. \<open>minimize v\<close> is what is written for the value \<open>v\<close> of a path, \<open>None\<close> when the
  path is left out: a property whose value comes out empty is dropped, an object left
  without properties is dropped in its turn, and an array keeps every element, an
  object among them being minimized inside but kept even when empty.
\<close>

fun minimize :: "json \<Rightarrow> json option"
  and minimize_properties :: "(string \<times> json) list \<Rightarrow> (string \<times> json) list"
  and minimize_elements :: "json list \<Rightarrow> json list" where
  "minimize (JObj kvs) =
     (case minimize_properties kvs of [] \<Rightarrow> None | p # ps \<Rightarrow> Some (JObj (p # ps)))"
| "minimize (JArr xs) = Some (JArr (minimize_elements xs))"
| "minimize JNull = Some JNull"
| "minimize (JBool b) = Some (JBool b)"
| "minimize (JNum n) = Some (JNum n)"
| "minimize (JStr s) = Some (JStr s)"
| "minimize_properties [] = []"
| "minimize_properties ((k, v) # kvs) =
     (case minimize v of
        None \<Rightarrow> minimize_properties kvs
      | Some w \<Rightarrow> (k, w) # minimize_properties kvs)"
| "minimize_elements [] = []"
| "minimize_elements (JObj kvs # xs) = JObj (minimize_properties kvs) # minimize_elements xs"
| "minimize_elements (JArr ys # xs) = JArr (minimize_elements ys) # minimize_elements xs"
| "minimize_elements (JNull # xs) = JNull # minimize_elements xs"
| "minimize_elements (JBool b # xs) = JBool b # minimize_elements xs"
| "minimize_elements (JNum n # xs) = JNum n # minimize_elements xs"
| "minimize_elements (JStr s # xs) = JStr s # minimize_elements xs"

text \<open>
  \<^verbatim>\<open>FireEvent.create(event)\<close> under the schema: \<^verbatim>\<open>timestamp\<close> is
  \<^verbatim>\<open>{ type: String, required: true }\<close>, which an empty string does not satisfy;
  \<^verbatim>\<open>received_at\<close> is not among the fields of \<open>event\<close> and takes its default
  \<^verbatim>\<open>Date.now\<close>; the strings are present with a value of their schema type and are
  kept as they are; \<^verbatim>\<open>best\<close>, of type \<^verbatim>\<open>Object\<close>, is minimized; the version key starts
  at 0. The result is the saved document and the collection with it.
\<close>

definition document_of :: "env \<Rightarrow> event \<Rightarrow> FireEvent" where
  "document_of e ev =
     \<lparr>timestamp = timestamp ev, score = score ev, best = minimize (best ev),
      snapshot_filename = snapshot_filename ev, image_url = image_url ev,
      cloudinary_public_id = cloudinary_public_id ev, ip = ip ev, user_agent = user_agent ev,
      doc_id = fresh_id e, received_at = insert_time e, version_key = 0\<rparr>"

definition FireEvent_create ::
    "env \<Rightarrow> event \<Rightarrow> FireEvent list \<Rightarrow> js_error + FireEvent \<times> FireEvent list" where
  "FireEvent_create e ev db =
     (if timestamp ev = [] then Inl (ValidationError ''timestamp'')
      else (case db_failure e of
              Some m \<Rightarrow> Inl (StoreError m)
            | None \<Rightarrow> (let saved = document_of e ev in Inr (saved, db @ [saved]))))"

text \<open>
  \<^verbatim>\<open>FireEvent.find().sort({ received_at: -1 }).limit(limit).lean()\<close>: the documents by
  descending \<^verbatim>\<open>received_at\<close>, equal ones in insertion order, and the first \<open>limit\<close> of
  them when \<open>limit\<close> is a positive whole number.
\<close>

definition whole_limit :: "jsnum \<Rightarrow> nat option" where
  "whole_limit l =
     (case l of
        Fin q \<Rightarrow> if 1 \<le> q \<and> of_int \<lfloor>q\<rfloor> = q then Some (nat \<lfloor>q\<rfloor>) else None
      | _ \<Rightarrow> None)"

definition FireEvent_find_recent ::
    "env \<Rightarrow> jsnum \<Rightarrow> FireEvent list \<Rightarrow> js_error + FireEvent list" where
  "FireEvent_find_recent e limit db =
     (case db_failure e of
        Some m \<Rightarrow> Inl (StoreError m)
      | None \<Rightarrow>
          (case whole_limit limit of
             Some n \<Rightarrow> Inr (take n (sort_key (\<lambda>d. - received_at d) db))
           | None \<Rightarrow> odd_limit_read e))"

subsection \<open>\<^verbatim>\<open>sendWhatsAppAlert\<close>\<close>

text \<open>
  An \<^verbatim>\<open>async\<close> function runs up to its first \<^verbatim>\<open>await\<close> when it is called and hands
  back a promise. The model returns both parts: the \<^verbatim>\<open>fetch\<close> issued by the call (none
  when the function returns \<^verbatim>\<open>{ skipped: true }\<close> at once), and the promise as a
  function from what the network later answers to how the promise settles
  (\<open>Inl\<close>: rejected).
\<close>

definition sendWhatsAppAlert ::
    "config \<Rightarrow> string \<Rightarrow> string \<Rightarrow> wa_request option \<times> (fetch_outcome \<Rightarrow> wa_error + wa_result)" where
  "sendWhatsAppAlert cfg to text =
     (if WA_PHONE_NUMBER_ID cfg = [] \<or> WA_ACCESS_TOKEN cfg = [] \<or> to = []
      then (None, \<lambda>net. Inr Skipped)
      else
        (Some \<lparr>url = ''https://graph.facebook.com/v21.0/'' @ WA_PHONE_NUMBER_ID cfg @ ''/messages'',
               authorization = ''Bearer '' @ WA_ACCESS_TOKEN cfg,
               content_type = ''application/json'',
               wa_body = JObj [(''messaging_product'', JStr ''whatsapp''), (''to'', JStr to),
                               (''type'', JStr ''text''), (''text'', JObj [(''body'', JStr text)])]\<rparr>,
         \<lambda>net. (case net of
                   NetworkError m \<Rightarrow> Inl (FetchFailed m)
                 | Answered ok parsed \<Rightarrow>
                     (case parsed of
                        Inl m \<Rightarrow> Inl (BodyMalformed m)
                      | Inr data \<Rightarrow> if \<not> ok then Inl (ApiError data) else Inr (Data data)))))"

subsection \<open>\<^verbatim>\<open>POST /api/fire-events\<close>\<close>

text \<open>\<^verbatim>\<open>typeof v === "string" ? v : d\<close>\<close>

fun string_or :: "json option \<Rightarrow> string \<Rightarrow> string" where
  "string_or (Some (JStr s)) d = s"
| "string_or _ d = d"

text \<open>\<^verbatim>\<open>typeof v === "object" && v !== null ? v : null\<close>\<close>

fun object_or_null :: "json option \<Rightarrow> json" where
  "object_or_null (Some (JObj kvs)) = JObj kvs"
| "object_or_null (Some (JArr xs)) = JArr xs"
| "object_or_null _ = JNull"

text \<open>\<^verbatim>\<open>req.body || {}\<close>\<close>

definition body_or_empty :: "request \<Rightarrow> json" where
  "body_or_empty req =
     (case body req of None \<Rightarrow> JObj [] | Some v \<Rightarrow> if ToBoolean (Some v) then v else JObj [])"

text \<open>Lines 97 to 116: the normalised fields and the object handed to the store.\<close>

definition build_event :: "env \<Rightarrow> request \<Rightarrow> event" where
  "build_event e req =
     (let b = body_or_empty req in
      \<lparr>timestamp = string_or (get_prop b ''timestamp'') (Date_toISOString (handler_time e)),
       score = string_or (get_prop b ''score'') [],
       best = object_or_null (get_prop b ''best''),
       snapshot_filename = string_or (get_prop b ''snapshot_filename'') [],
       image_url = string_or (get_prop b ''image_url'') [],
       cloudinary_public_id = string_or (get_prop b ''cloudinary_public_id'') [],
       ip = or_string (headers req ''x-forwarded-for'') (or_string (remoteAddress req) []),
       user_agent = or_string (headers req ''user-agent'') []\<rparr>)"

text \<open>\<^verbatim>\<open>best?.name\<close>, where \<open>best\<close> is \<^verbatim>\<open>null\<close>, an object or an array.\<close>

definition optional_chain :: "json \<Rightarrow> string \<Rightarrow> json option" where
  "optional_chain v name = (if v = JNull then None else get_prop v name)"

text \<open>\<^verbatim>\<open>${best?.label || "-"}\<close>\<close>

definition label_text :: "json \<Rightarrow> js_error + string" where
  "label_text b =
     (case optional_chain b ''label'' of
        None \<Rightarrow> Inr ''-''
      | Some v \<Rightarrow> if ToBoolean (Some v) then ToString v else Inr ''-'')"

text \<open>\<^verbatim>\<open>${best?.conf ? Number(best.conf).toFixed(2) : "-"}\<close>\<close>

definition conf_text :: "json \<Rightarrow> js_error + string" where
  "conf_text b =
     (case optional_chain b ''conf'' of
        None \<Rightarrow> Inr ''-''
      | Some v \<Rightarrow>
          if ToBoolean (Some v)
          then (case ToNumber v of Inl err \<Rightarrow> Inl err | Inr n \<Rightarrow> Inr (Number_toFixed n 2))
          else Inr ''-'')"

text \<open>\<^verbatim>\<open>${image_url || snapshot_filename || "-"}\<close>\<close>

definition image_text :: "event \<Rightarrow> string" where
  "image_text ev = or_string (Some (image_url ev)) (or_string (Some (snapshot_filename ev)) ''-'')"

definition newline :: string where
  "newline = [CHR 0x0A]"

text \<open>The first line of the message; its first four bytes are the fire emoji U+1F525.\<close>

definition banner :: string where
  "banner = [CHR 0xF0, CHR 0x9F, CHR 0x94, CHR 0xA5] @ '' FIRE ALERT!'' @ newline"

text \<open>Lines 122 to 128. The local variables \<^verbatim>\<open>timestamp\<close>, \<^verbatim>\<open>score\<close>, \<^verbatim>\<open>best\<close>,
  \<^verbatim>\<open>image_url\<close> and \<^verbatim>\<open>snapshot_filename\<close> are the fields of \<open>event\<close> of the same
  names.\<close>

definition msgText :: "event \<Rightarrow> js_error + string" where
  "msgText ev =
     (case label_text (best ev) of
        Inl err \<Rightarrow> Inl err
      | Inr label \<Rightarrow>
          (case conf_text (best ev) of
             Inl err \<Rightarrow> Inl err
           | Inr conf \<Rightarrow>
               Inr (banner @
                    ''Time: '' @ timestamp ev @ newline @
                    ''Score: '' @ score ev @ newline @
                    ''Label: '' @ label @ newline @
                    ''Conf: '' @ conf @ newline @
                    ''Image: '' @ image_text ev)))"

text \<open>
  The handler returns the response, the state as it is when the response is sent, and
  the reaction registered on the promise of \<^verbatim>\<open>sendWhatsAppAlert\<close> (\<^verbatim>\<open>.then\<close> and
  \<^verbatim>\<open>.catch\<close>), if the function was called: the line it will log once the network has
  answered. Every exception raised inside \<^verbatim>\<open>try\<close> reaches the one \<^verbatim>\<open>catch\<close>.
\<close>

definition post_fire_events ::
    "config \<Rightarrow> env \<Rightarrow> request \<Rightarrow> server \<Rightarrow> response \<times> server \<times> (fetch_outcome \<Rightarrow> log_line) option" where
  "post_fire_events cfg e req s =
     (case requireAuth cfg req of
        Some r \<Rightarrow> (r, s, None)
      | None \<Rightarrow>
          (let ev = build_event e req in
           case FireEvent_create e ev (fire_events s) of
             Inl err \<Rightarrow>
               (\<lparr>status = 500, payload = Failed False ''Failed to store event'' err\<rparr>, s, None)
           | Inr (saved, db) \<Rightarrow>
               (case msgText ev of
                  Inl err \<Rightarrow>
                    (\<lparr>status = 500, payload = Failed False ''Failed to store event'' err\<rparr>,
                     s\<lparr>fire_events := db\<rparr>, None)
                | Inr text \<Rightarrow>
                    (if WA_TO cfg \<noteq> [] then
                       (case sendWhatsAppAlert cfg (WA_TO cfg) text of (sent, promise) \<Rightarrow>
                          (\<lparr>status = 200, payload = Stored True ''Event stored'' saved\<rparr>,
                           s\<lparr>fire_events := db, outbox := outbox s @ (case sent of None \<Rightarrow> [] | Some r \<Rightarrow> [r])\<rparr>,
                           Some (\<lambda>net. case promise net of
                                          Inr r \<Rightarrow> WhatsApp_sent r
                                        | Inl err \<Rightarrow> WhatsApp_failed err)))
                     else
                       (\<lparr>status = 200, payload = Stored True ''Event stored'' saved\<rparr>,
                        s\<lparr>fire_events := db, console := console s @ [WA_TO_not_set]\<rparr>,
                        None)))))"

text \<open>The reaction runs when the network has answered: it writes one line.\<close>

fun settle :: "fetch_outcome \<Rightarrow> (fetch_outcome \<Rightarrow> log_line) option \<Rightarrow> server \<Rightarrow> server" where
  "settle net None s = s"
| "settle net (Some react) s = s\<lparr>console := console s @ [react net]\<rparr>"

subsection \<open>\<^verbatim>\<open>GET /api/fire-events\<close>\<close>

fun query_ToString :: "query_value \<Rightarrow> string" where
  "query_ToString (QStr s) = s"
| "query_ToString (QArr vs) = join (map query_ToString vs)"
| "query_ToString QObj = ''[object Object]''"

text \<open>\<^verbatim>\<open>Math.max(1, Math.min(200, Number(req.query.limit || 50)))\<close>. Only the empty
  string is a falsy \<open>query_value\<close>.\<close>

definition effective_limit :: "query_value option \<Rightarrow> jsnum" where
  "effective_limit q =
     Math_max (Fin 1) (Math_min (Fin 200)
       (case q of
          None \<Rightarrow> Fin 50
        | Some v \<Rightarrow> if v = QStr [] then Fin 50 else StringToNumber (query_ToString v)))"

definition get_fire_events :: "config \<Rightarrow> env \<Rightarrow> request \<Rightarrow> server \<Rightarrow> response \<times> server" where
  "get_fire_events cfg e req s =
     (case requireAuth cfg req of
        Some r \<Rightarrow> (r, s)
      | None \<Rightarrow>
          (case FireEvent_find_recent e (effective_limit (query_limit req)) (fire_events s) of
             Inl err \<Rightarrow>
               (\<lparr>status = 500, payload = Failed False ''Failed to read events'' err\<rparr>, s)
           | Inr events \<Rightarrow>
               (\<lparr>status = 200, payload = Listed True (length events) events\<rparr>, s)))"

subsection \<open>Observations\<close>

text \<open>The response of an unauthorised request.\<close>

definition unauthorized :: response where
  "unauthorized = \<lparr>status = 401, payload = Refused False ''Unauthorized''\<rparr>"

text \<open>The names the create handler reads from the body.\<close>

definition body_names :: "string list" where
  "body_names =
     [''timestamp'', ''score'', ''best'', ''snapshot_filename'', ''image_url'',
      ''cloudinary_public_id'']"

text \<open>The collection after a create request.\<close>

definition collection_after :: "config \<Rightarrow> env \<Rightarrow> request \<Rightarrow> server \<Rightarrow> FireEvent list" where
  "collection_after cfg e req s = fire_events (fst (snd (post_fire_events cfg e req s)))"

text \<open>A decimal with exactly two digits after the point: an optional minus sign, one or
  more digits, a point, two digits.\<close>

definition two_decimals :: "string \<Rightarrow> bool" where
  "two_decimals s =
     (case rev s of
        d2 # d1 # p # a \<Rightarrow>
          is_digit d2 \<and> is_digit d1 \<and> p = CHR ''.'' \<and>
          (let w = rev a; u = (if take 1 w = ''-'' then drop 1 w else w)
           in u \<noteq> [] \<and> list_all is_digit u)
      | _ \<Rightarrow> False)"

text \<open>The messaging API is configured: \<^verbatim>\<open>sendWhatsAppAlert\<close> does not skip.\<close>

definition configured :: "config \<Rightarrow> bool" where
  "configured cfg =
     (WA_PHONE_NUMBER_ID cfg \<noteq> [] \<and> WA_ACCESS_TOKEN cfg \<noteq> [] \<and> WA_TO cfg \<noteq> [])"

text \<open>Missing, or a value that is neither an object nor an array.\<close>

definition primitive :: "json option \<Rightarrow> bool" where
  "primitive v = (case v of Some (JObj kvs) \<Rightarrow> False | Some (JArr xs) \<Rightarrow> False | _ \<Rightarrow> True)"

text \<open>
  A text matches a pattern when it has the pattern's length, a decimal digit wherever the
  pattern has the letter \<open>d\<close>, and the pattern's own character everywhere else.
\<close>

fun shaped :: "string \<Rightarrow> string \<Rightarrow> bool" where
  "shaped [] [] = True"
| "shaped (p # ps) (c # cs) = ((if p = CHR ''d'' then is_digit c else c = p) \<and> shaped ps cs)"
| "shaped _ _ = False"

text \<open>The extended ISO 8601 format of a UTC instant with milliseconds, the year in \<open>w\<close>
  digits: four digits without a sign, or six digits after a sign.\<close>

definition iso_pattern :: "nat \<Rightarrow> string" where
  "iso_pattern w =
     replicate w CHR ''d'' @ ''-'' @ replicate 2 CHR ''d'' @ ''-'' @ replicate 2 CHR ''d'' @ ''T'' @
     replicate 2 CHR ''d'' @ '':'' @ replicate 2 CHR ''d'' @ '':'' @ replicate 2 CHR ''d'' @ ''.'' @
     replicate 3 CHR ''d'' @ ''Z''"

definition iso8601_utc :: "string \<Rightarrow> bool" where
  "iso8601_utc s =
     (shaped (iso_pattern 4) s \<or> shaped (''+'' @ iso_pattern 6) s \<or> shaped (''-'' @ iso_pattern 6) s)"

text \<open>
  The day number (days since 1 January 1970) of a date of the proleptic Gregorian
  calendar, and the time value that a text in the ISO 8601 format above denotes
  (\<^verbatim>\<open>Date.parse\<close> on the Date Time String Format): the fields are read at their
  places in the text and put together again.
\<close>

definition days_from_civil :: "int \<Rightarrow> int \<Rightarrow> int \<Rightarrow> int" where
  "days_from_civil y m d =
     (let y' = (if m \<le> 2 then y - 1 else y);
          era = y' div 400;
          yoe = y' mod 400;
          mp = (if 2 < m then m - 3 else m + 9);
          doy = (153 * mp + 2) div 5 + d - 1;
          doe = yoe * 365 + yoe div 4 - yoe div 100 + doy
      in era * 146097 + doe - 719468)"

definition number_at :: "nat \<Rightarrow> nat \<Rightarrow> string \<Rightarrow> int" where
  "number_at i w s = (case digits_value 10 0 (take w (drop i s)) of Some n \<Rightarrow> n | None \<Rightarrow> 0)"

definition iso_time :: "string \<Rightarrow> int option" where
  "iso_time s =
     (if \<not> iso8601_utc s then None
      else
        let signed = (take 1 s = ''+'' \<or> take 1 s = ''-'');
            k = (if signed then 7 else 4);
            y = (if signed then number_at 1 6 s else number_at 0 4 s);
            year = (if take 1 s = ''-'' then - y else y)
        in Some (days_from_civil year (number_at (k + 1) 2 s) (number_at (k + 4) 2 s) * 86400000
                 + number_at (k + 7) 2 s * 3600000 + number_at (k + 10) 2 s * 60000
                 + number_at (k + 13) 2 s * 1000 + number_at (k + 16) 3 s))"


text \<open>The keys of a document as it is written to the collection.\<close>

definition document_keys :: "FireEvent \<Rightarrow> string list" where
  "document_keys d =
     [''_id'', ''received_at'', ''timestamp'', ''score''] @
     (case best d of None \<Rightarrow> [] | Some v \<Rightarrow> [''best'']) @
     [''snapshot_filename'', ''image_url'', ''cloudinary_public_id'', ''ip'', ''user_agent'',
      ''__v'']"

subsection \<open>Sample data\<close>

definition example_config :: "string \<Rightarrow> config" where
  "example_config key =
     \<lparr>API_KEY = key, WA_PHONE_NUMBER_ID = ''15550001'', WA_ACCESS_TOKEN = ''token'',
      WA_TO = ''447700900000''\<rparr>"

definition example_request :: "string option \<Rightarrow> json option \<Rightarrow> request" where
  "example_request auth b =
     \<lparr>headers = (case auth of None \<Rightarrow> Map.empty | Some a \<Rightarrow> [''authorization'' \<mapsto> a]),
      body = b, query_limit = None, remoteAddress = Some ''10.0.0.7''\<rparr>"

definition example_env :: env where
  "example_env =
     \<lparr>handler_time = 1704067200000, insert_time = 1704067200005,
      fresh_id = ''65920080a1b2c3d4e5f60718'', db_failure = None, odd_limit_read = Inr []\<rparr>"

definition empty_server :: server where
  "empty_server = \<lparr>fire_events = [], outbox = [], console = []\<rparr>"

definition example_body :: json where
  "example_body =
     JObj [(''timestamp'', JStr ''2024-01-01T00:00:00Z''), (''score'', JStr ''0.9''),
           (''best'', JObj [(''label'', JStr ''fire''), (''conf'', JNum (Fin (3 / 4)))]),
           (''image_url'', JStr ''http://x/img.jpg'')]"

definition example_saved :: FireEvent where
  "example_saved =
     \<lparr>timestamp = ''2024-01-01T00:00:00Z'', score = ''0.9'',
      best = Some (JObj [(''label'', JStr ''fire''), (''conf'', JNum (Fin (3 / 4)))]),
      snapshot_filename = [], image_url = ''http://x/img.jpg'', cloudinary_public_id = [],
      ip = ''10.0.0.7'', user_agent = [],
      doc_id = ''65920080a1b2c3d4e5f60718'', received_at = 1704067200005, version_key = 0\<rparr>"

text \<open>A request with the sample body, sent with the right token.\<close>

definition example_post :: request where
  "example_post = example_request (Some ''Bearer abc'') (Some example_body)"

text \<open>What is stored for a body whose \<^verbatim>\<open>timestamp\<close> is the number 17, sent without
  a token to a server that asks for none.\<close>

definition example_untimed :: FireEvent where
  "example_untimed =
     \<lparr>timestamp = ''2024-01-01T00:00:00.000Z'', score = [], best = Some JNull,
      snapshot_filename = [], image_url = [], cloudinary_public_id = [],
      ip = ''10.0.0.7'', user_agent = [],
      doc_id = ''65920080a1b2c3d4e5f60718'', received_at = 1704067200005, version_key = 0\<rparr>"

text \<open>A body whose \<^verbatim>\<open>best\<close> is the empty object, and what is stored for it when it is
  sent without a token to a server that asks for none.\<close>

definition example_bare :: json where
  "example_bare = JObj [(''timestamp'', JStr ''2024-01-01T00:00:00Z''), (''best'', JObj [])]"

definition example_unlabelled :: FireEvent where
  "example_unlabelled =
     \<lparr>timestamp = ''2024-01-01T00:00:00Z'', score = [], best = None,
      snapshot_filename = [], image_url = [], cloudinary_public_id = [],
      ip = ''10.0.0.7'', user_agent = [],
      doc_id = ''65920080a1b2c3d4e5f60718'', received_at = 1704067200005, version_key = 0\<rparr>"

text \<open>The message built for the sample request.\<close>

definition example_msg :: string where
  "example_msg =
     banner @ ''Time: 2024-01-01T00:00:00Z'' @ newline @ ''Score: 0.9'' @ newline @
     ''Label: fire'' @ newline @ ''Conf: 0.75'' @ newline @ ''Image: http://x/img.jpg''"

text \<open>A listing of at most two records, from a collection of three.\<close>

definition example_listing :: request where
  "example_listing =
     \<lparr>headers = Map.empty, body = None, query_limit = Some (QStr ''2''),
      remoteAddress = Some ''10.0.0.7''\<rparr>"

definition example_collection :: server where
  "example_collection =
     \<lparr>fire_events =
        [example_saved\<lparr>doc_id := ''a'', received_at := 1000\<rparr>,
         example_saved\<lparr>doc_id := ''b'', received_at := 3000\<rparr>,
         example_saved\<lparr>doc_id := ''c'', received_at := 2000\<rparr>],
      outbox = [], console = []\<rparr>"

section \<open>Properties\<close>

subsection \<open>Digits and dates\<close>

lemma div_bounds:
  fixes a b :: int
  assumes "0 < b"
  shows "b * (a div b) \<le> a" and "a < b * (a div b) + b"
proof -
  have "a = b * (a div b) + a mod b" by simp
  moreover have "0 \<le> a mod b" "a mod b < b" using assms by simp_all
  ultimately show "b * (a div b) \<le> a" and "a < b * (a div b) + b" by linarith+
qed

lemma digit_char: "k < 10 \<Longrightarrow> is_digit (''0123456789'' ! k)"
proof -
  assume "k < 10"
  then have "k \<in> {0, 1, 2, 3, 4, 5, 6, 7, 8, 9}" by auto
  then show ?thesis by (auto simp: is_digit_def)
qed

lemma dec_digits_all: "dec_digits n \<noteq> [] \<and> list_all is_digit (dec_digits n)"
proof (induction n rule: dec_digits.induct)
  case (1 n)
  show ?case
  proof (cases "n < 10")
    case True
    then have "nat n < 10" by simp
    then have "is_digit (''0123456789'' ! nat n)" by (rule digit_char)
    with True show ?thesis by (subst dec_digits.simps, subst dec_digits.simps) simp
  next
    case False
    then have b: "nat (n mod 10) < 10" by simp
    from "1.IH" [OF False] digit_char [OF b] False
    show ?thesis by (subst dec_digits.simps, subst dec_digits.simps) simp
  qed
qed

lemma dec_digits_length: "0 < w \<Longrightarrow> n < 10 ^ w \<Longrightarrow> length (dec_digits n) \<le> w"
proof (induction w arbitrary: n)
  case 0
  then show ?case by simp
next
  case (Suc w)
  show ?case
  proof (cases "n < 10")
    case True
    then show ?thesis by (subst dec_digits.simps) simp
  next
    case False
    with Suc.prems have w: "0 < w" by (cases w) auto
    from Suc.prems have "n div 10 < 10 ^ w" by (simp add: div_less_iff_less_mult mult.commute)
    from Suc.IH [OF w this] False show ?thesis by (subst dec_digits.simps) simp
  qed
qed

lemma shaped_digits: "list_all is_digit s \<Longrightarrow> shaped (replicate (length s) CHR ''d'') s"
  by (induction s) simp_all

lemma shaped_append: "shaped p s \<Longrightarrow> shaped p' s' \<Longrightarrow> shaped (p @ p') (s @ s')"
  by (induction p s rule: shaped.induct) simp_all

lemma shaped_pad:
  assumes "0 < w" "n < 10 ^ w"
  shows "shaped (replicate w CHR ''d'') (pad w n)"
proof -
  have l: "length (pad w n) = w"
    using dec_digits_length [OF assms] by (simp add: pad_def)
  have z: "is_digit CHR ''0''" by (simp add: is_digit_def)
  have "list_all is_digit (pad w n)"
    using dec_digits_all [of n] z by (auto simp: pad_def list_all_iff)
  from shaped_digits [OF this] l show ?thesis by simp
qed

lemma year_of_era_bounds:
  assumes "0 \<le> doe" "doe < 146097"
  shows "0 \<le> year_of_era doe" and "year_of_era doe \<le> 400" and "day_of_year doe \<le> 400"
proof -
  define yoe where "yoe = year_of_era doe"
  define q1 where "q1 = doe div 1460"
  define q2 where "q2 = doe div 36524"
  define q3 where "q3 = doe div 146096"
  define q4 where "q4 = yoe div 4"
  define q5 where "q5 = yoe div 100"
  have b1: "1460 * q1 \<le> doe" "doe < 1460 * q1 + 1460"
    unfolding q1_def using div_bounds [of 1460 doe] by simp_all
  have b2: "36524 * q2 \<le> doe" "doe < 36524 * q2 + 36524"
    unfolding q2_def using div_bounds [of 36524 doe] by simp_all
  have b3: "146096 * q3 \<le> doe" "doe < 146096 * q3 + 146096"
    unfolding q3_def using div_bounds [of 146096 doe] by simp_all
  have y: "365 * yoe \<le> doe - q1 + q2 - q3" "doe - q1 + q2 - q3 < 365 * yoe + 365"
    unfolding yoe_def year_of_era_def q1_def q2_def q3_def
    using div_bounds [of 365 "doe - doe div 1460 + doe div 36524 - doe div 146096"] by simp_all
  have b4: "4 * q4 \<le> yoe" "yoe < 4 * q4 + 4"
    unfolding q4_def using div_bounds [of 4 yoe] by simp_all
  have b5: "100 * q5 \<le> yoe" "yoe < 100 * q5 + 100"
    unfolding q5_def using div_bounds [of 100 yoe] by simp_all
  have y0: "0 \<le> yoe" using assms(1,2) b1 b2 b3 y by linarith
  have y1: "yoe \<le> 400" using assms(1,2) b1 b2 b3 y by linarith
  have dy: "doe - (365 * yoe + q4 - q5) \<le> 400"
    using assms(1,2) b1 b2 b3 y b4 b5 by linarith
  from y0 show "0 \<le> year_of_era doe" by (simp add: yoe_def)
  from y1 show "year_of_era doe \<le> 400" by (simp add: yoe_def)
  from dy show "day_of_year doe \<le> 400"
    unfolding day_of_year_def q4_def q5_def yoe_def .
qed

lemma day_of_era_bounds: "0 \<le> day_of_era days" "day_of_era days < 146097"
  by (simp_all add: day_of_era_def)

lemma civil_month_bound: "civil_month days < 100"
proof -
  define doy where "doy = day_of_year (day_of_era days)"
  define mp where "mp = month_index doy"
  have "doy \<le> 400" unfolding doy_def by (rule year_of_era_bounds(3) [OF day_of_era_bounds])
  moreover have "153 * mp \<le> 5 * doy + 2"
    unfolding mp_def month_index_def using div_bounds [of 153 "5 * doy + 2"] by simp
  ultimately have "mp \<le> 13" by linarith
  moreover have "civil_month days = (if mp < 10 then mp + 3 else mp - 9)"
    by (simp add: civil_month_def mp_def doy_def Let_def)
  ultimately show ?thesis by (simp split: if_splits)
qed

lemma civil_day_bound: "civil_day days < 100"
proof -
  define doy where "doy = day_of_year (day_of_era days)"
  define mp where "mp = month_index doy"
  define r where "r = (153 * mp + 2) div 5"
  have a: "153 * mp \<le> 5 * doy + 2" "5 * doy + 2 < 153 * mp + 153"
    unfolding mp_def month_index_def using div_bounds [of 153 "5 * doy + 2"] by simp_all
  have b: "5 * r \<le> 153 * mp + 2" "153 * mp + 2 < 5 * r + 5"
    unfolding r_def using div_bounds [of 5 "153 * mp + 2"] by simp_all
  from a b have "doy - r + 1 < 100" by linarith
  moreover have "civil_day days = doy - r + 1"
    by (simp add: civil_day_def r_def mp_def doy_def Let_def)
  ultimately show ?thesis by simp
qed

lemma civil_year_bound:
  assumes "\<bar>days\<bar> \<le> 100000000"
  shows "\<bar>civil_year days\<bar> < 1000000"
proof -
  define z where "z = days + 719468"
  define era where "era = era_of days"
  define yoe where "yoe = year_of_era (day_of_era days)"
  from assms have "- 99280532 \<le> z" "z \<le> 100719468" by (simp_all add: z_def)
  moreover have "146097 * era \<le> z" "z < 146097 * era + 146097"
    unfolding era_def era_of_def z_def using div_bounds [of 146097 "days + 719468"] by simp_all
  ultimately have era: "- 681 \<le> era" "era \<le> 690" by linarith+
  from year_of_era_bounds(1,2) [OF day_of_era_bounds]
  have yoe: "0 \<le> yoe" "yoe \<le> 400" by (simp_all add: yoe_def)
  have "civil_year days = yoe + era * 400 + (if civil_month days \<le> 2 then 1 else 0)"
    by (simp add: civil_year_def yoe_def era_def)
  with era yoe show ?thesis by (simp split: if_splits)
qed

lemma time_of_day_bounds:
  fixes t :: int
  defines "ms \<equiv> t mod 86400000"
  shows "ms div 3600000 < 100" "ms div 60000 mod 60 < 100" "ms div 1000 mod 60 < 100"
    "ms mod 1000 < 1000"
proof -
  have ms: "0 \<le> ms" "ms < 86400000" by (simp_all add: ms_def)
  have "3600000 * (ms div 3600000) \<le> ms" using div_bounds [of 3600000 ms] by simp
  with ms show "ms div 3600000 < 100" by linarith
  have "ms div 60000 mod 60 < 60" by simp
  then show "ms div 60000 mod 60 < 100" by linarith
  have "ms div 1000 mod 60 < 60" by simp
  then show "ms div 1000 mod 60 < 100" by linarith
  show "ms mod 1000 < 1000" by simp
qed

lemma days_bound:
  fixes t :: int
  assumes "\<bar>t\<bar> \<le> 8640000000000000"
  shows "\<bar>t div 86400000\<bar> \<le> 100000000"
proof -
  have "86400000 * (t div 86400000) \<le> t" "t < 86400000 * (t div 86400000) + 86400000"
    using div_bounds [of 86400000 t] by simp_all
  with assms show ?thesis by linarith
qed

lemma year_text_shape:
  assumes "\<bar>y\<bar> < 1000000"
  shows "shaped (replicate 4 CHR ''d'') (year_text y) \<or>
         shaped (''+'' @ replicate 6 CHR ''d'') (year_text y) \<or>
         shaped (''-'' @ replicate 6 CHR ''d'') (year_text y)"
proof (cases "0 \<le> y \<and> y \<le> 9999")
  case True
  then have "y < 10 ^ 4" by simp
  then have "shaped (replicate 4 CHR ''d'') (pad 4 y)" by (intro shaped_pad) simp_all
  with True show ?thesis by (simp add: year_text_def)
next
  case False
  from assms have "\<bar>y\<bar> < 10 ^ 6" by simp
  then have s6: "shaped (replicate 6 CHR ''d'') (pad 6 \<bar>y\<bar>)" by (intro shaped_pad) simp_all
  have m: "shaped ''-'' ''-''" and p: "shaped ''+'' ''+''" by simp_all
  from False shaped_append [OF m s6] shaped_append [OF p s6] show ?thesis
    by (cases "y < 0") (simp_all add: year_text_def)
qed

lemma toISOString_unfold:
  "Date_toISOString t = year_text (civil_year (t div 86400000)) @
     ''-'' @ pad 2 (civil_month (t div 86400000)) @ ''-'' @ pad 2 (civil_day (t div 86400000)) @
     ''T'' @ pad 2 (t mod 86400000 div 3600000) @ '':'' @
     pad 2 (t mod 86400000 div 60000 mod 60) @ '':'' @
     pad 2 (t mod 86400000 div 1000 mod 60) @ ''.'' @ pad 3 (t mod 86400000 mod 1000) @ ''Z''"
  unfolding Date_toISOString_def Let_def ..

lemma two_digits: "n < 100 \<Longrightarrow> shaped (replicate 2 CHR ''d'') (pad 2 n)"
  by (rule shaped_pad) simp_all

lemma three_digits: "n < 1000 \<Longrightarrow> shaped (replicate 3 CHR ''d'') (pad 3 n)"
  by (rule shaped_pad) simp_all

lemma iso_tail_shape:
  "shaped (''-'' @ replicate 2 CHR ''d'' @ ''-'' @ replicate 2 CHR ''d'' @ ''T'' @
           replicate 2 CHR ''d'' @ '':'' @ replicate 2 CHR ''d'' @ '':'' @
           replicate 2 CHR ''d'' @ ''.'' @ replicate 3 CHR ''d'' @ ''Z'')
     (''-'' @ pad 2 (civil_month (t div 86400000)) @ ''-'' @ pad 2 (civil_day (t div 86400000)) @
      ''T'' @ pad 2 (t mod 86400000 div 3600000) @ '':'' @
      pad 2 (t mod 86400000 div 60000 mod 60) @ '':'' @
      pad 2 (t mod 86400000 div 1000 mod 60) @ ''.'' @ pad 3 (t mod 86400000 mod 1000) @ ''Z'')"
proof -
  note A = shaped_append
  have dash: "shaped ''-'' ''-''" and tee: "shaped ''T'' ''T''" and colon: "shaped '':'' '':''"
    and dot: "shaped ''.'' ''.''" and zed: "shaped ''Z'' ''Z''"
    by simp_all
  note b = time_of_day_bounds [of t]
  show ?thesis
    by (rule A [OF dash A [OF two_digits [OF civil_month_bound] A [OF dash
          A [OF two_digits [OF civil_day_bound] A [OF tee
          A [OF two_digits [OF b(1)] A [OF colon A [OF two_digits [OF b(2)] A [OF colon
          A [OF two_digits [OF b(3)] A [OF dot A [OF three_digits [OF b(4)] zed]]]]]]]]]]]])
qed

text \<open>Every time value a \<^verbatim>\<open>Date\<close> can hold prints in the ISO 8601 format.\<close>

lemma toISOString_shape:
  assumes "\<bar>t\<bar> \<le> 8640000000000000"
  shows "iso8601_utc (Date_toISOString t)"
proof -
  note tail = iso_tail_shape [of t]
  from year_text_shape [OF civil_year_bound [OF days_bound [OF assms]]] show ?thesis
  proof (elim disjE)
    assume "shaped (replicate 4 CHR ''d'') (year_text (civil_year (t div 86400000)))"
    from shaped_append [OF this tail] show ?thesis
      unfolding iso8601_utc_def toISOString_unfold iso_pattern_def by (rule disjI1)
  next
    assume "shaped (''+'' @ replicate 6 CHR ''d'') (year_text (civil_year (t div 86400000)))"
    from shaped_append [OF this tail] show ?thesis
      unfolding iso8601_utc_def toISOString_unfold iso_pattern_def append_assoc
      by (intro disjI2 disjI1)
  next
    assume "shaped (''-'' @ replicate 6 CHR ''d'') (year_text (civil_year (t div 86400000)))"
    from shaped_append [OF this tail] show ?thesis
      unfolding iso8601_utc_def toISOString_unfold iso_pattern_def append_assoc
      by (intro disjI2)
  qed
qed

text \<open>Within an era of 400 years, the year is one of the 400 and the day of the year
  (counted from 1 March) one of at most 366; so the month is one of the twelve.\<close>

lemma era_exact:
  assumes "0 \<le> doe" "doe < 146097"
  shows "0 \<le> year_of_era doe" and "year_of_era doe \<le> 399"
    and "0 \<le> day_of_year doe" and "day_of_year doe \<le> 365"
proof -
  have all: "0 \<le> year_of_era doe \<and> year_of_era doe \<le> 399 \<and>
             0 \<le> day_of_year doe \<and> day_of_year doe \<le> 365"
  proof (cases "doe = 146096")
    case True
    then show ?thesis by (simp add: year_of_era_def day_of_year_def)
  next
    case False
    with assms have top: "doe \<le> 146095" by simp
    define yoe where "yoe = year_of_era doe"
    define q1 where "q1 = doe div 1460"
    define q2 where "q2 = doe div 36524"
    define q4 where "q4 = yoe div 4"
    define q5 where "q5 = yoe div 100"
    have q3: "doe div 146096 = 0" using assms(1) top by simp
    have b1: "1460 * q1 \<le> doe" "doe < 1460 * q1 + 1460"
      unfolding q1_def using div_bounds [of 1460 doe] by simp_all
    have b2: "36524 * q2 \<le> doe" "doe < 36524 * q2 + 36524"
      unfolding q2_def using div_bounds [of 36524 doe] by simp_all
    have y: "365 * yoe \<le> doe - q1 + q2" "doe - q1 + q2 < 365 * yoe + 365"
      unfolding yoe_def year_of_era_def q1_def q2_def q3
      using div_bounds [of 365 "doe - doe div 1460 + doe div 36524 - 0"] by simp_all
    have b4: "4 * q4 \<le> yoe" "yoe < 4 * q4 + 4"
      unfolding q4_def using div_bounds [of 4 yoe] by simp_all
    have b5: "100 * q5 \<le> yoe" "yoe < 100 * q5 + 100"
      unfolding q5_def using div_bounds [of 100 yoe] by simp_all
    have r2: "0 \<le> q2" "q2 \<le> 3" using assms(1) top b2 by linarith+
    have yl: "100 * q2 \<le> yoe" using assms(1) top b1 b2 r2 y by linarith
    have yu: "yoe \<le> 100 * q2 + 99" using assms(1) top b1 b2 r2 y by linarith
    have c: "q5 = q2" using yl yu b5 by linarith
    have d0: "0 \<le> doe - (365 * yoe + q4 - q2)"
      using assms(1) top b1 b2 r2 y b4 by linarith
    have d1: "doe - (365 * yoe + q4 - q2) \<le> 365"
      using assms(1) top b1 b2 r2 y b4 by linarith
    have doy: "day_of_year doe = doe - (365 * yoe + q4 - q2)"
      unfolding day_of_year_def yoe_def [symmetric] q4_def [symmetric] q5_def [symmetric] c ..
    from yl yu r2 d0 d1 show ?thesis unfolding doy yoe_def [symmetric] by simp
  qed
  from all show "0 \<le> year_of_era doe" and "year_of_era doe \<le> 399"
    and "0 \<le> day_of_year doe" and "day_of_year doe \<le> 365" by simp_all
qed

lemma month_index_range:
  assumes "0 \<le> doy" "doy \<le> 365"
  shows "0 \<le> month_index doy" and "month_index doy \<le> 11"
proof -
  have "153 * month_index doy \<le> 5 * doy + 2" "5 * doy + 2 < 153 * month_index doy + 153"
    unfolding month_index_def using div_bounds [of 153 "5 * doy + 2"] by simp_all
  with assms show "0 \<le> month_index doy" and "month_index doy \<le> 11" by linarith+
qed

lemma civil_range:
  "1 \<le> civil_month days" "civil_month days \<le> 12" "1 \<le> civil_day days"
proof -
  define doy where "doy = day_of_year (day_of_era days)"
  define mp where "mp = month_index doy"
  define r where "r = (153 * mp + 2) div 5"
  have doy: "0 \<le> doy" "doy \<le> 365"
    unfolding doy_def by (rule era_exact [OF day_of_era_bounds])+
  note mp = month_index_range [OF doy, folded mp_def]
  have m: "civil_month days = (if mp < 10 then mp + 3 else mp - 9)"
    by (simp add: civil_month_def mp_def doy_def Let_def)
  from mp show "1 \<le> civil_month days" "civil_month days \<le> 12" by (simp_all add: m)
  have a: "153 * mp \<le> 5 * doy + 2"
    unfolding mp_def month_index_def using div_bounds [of 153 "5 * doy + 2"] by simp
  have b: "5 * r \<le> 153 * mp + 2"
    unfolding r_def using div_bounds [of 5 "153 * mp + 2"] by simp
  from a b have "1 \<le> doy - r + 1" by linarith
  moreover have "civil_day days = doy - r + 1"
    by (simp add: civil_day_def r_def mp_def doy_def Let_def)
  ultimately show "1 \<le> civil_day days" by simp
qed

text \<open>The day number of the date of a day is that day.\<close>

lemma days_from_civil_inverse:
  "days_from_civil (civil_year z) (civil_month z) (civil_day z) = z"
proof -
  define doe where "doe = day_of_era z"
  define era where "era = era_of z"
  define yoe where "yoe = year_of_era doe"
  define doy where "doy = day_of_year doe"
  define mp where "mp = month_index doy"
  define m where "m = civil_month z"
  have yoe: "0 \<le> yoe" "yoe \<le> 399" and doy: "0 \<le> doy" "doy \<le> 365"
    unfolding yoe_def doy_def doe_def by (rule era_exact [OF day_of_era_bounds])+
  note mp = month_index_range [OF doy, folded mp_def]
  have m: "m = (if mp < 10 then mp + 3 else mp - 9)"
    by (simp add: m_def civil_month_def mp_def doy_def doe_def Let_def)
  have y: "civil_year z = yoe + era * 400 + (if m \<le> 2 then 1 else 0)"
    by (simp add: civil_year_def yoe_def doe_def era_def m_def)
  have d: "civil_day z = doy - (153 * mp + 2) div 5 + 1"
    by (simp add: civil_day_def mp_def doy_def doe_def Let_def)
  have y': "(if m \<le> 2 then civil_year z - 1 else civil_year z) = yoe + era * 400"
    by (simp add: y)
  have e: "(yoe + era * 400) div 400 = era" and f: "(yoe + era * 400) mod 400 = yoe"
    using yoe by simp_all
  have mp': "(if 2 < m then m - 3 else m + 9) = mp"
    using mp by (simp add: m)
  have g: "yoe * 365 + yoe div 4 - yoe div 100 + doy = doe"
    by (simp add: doy_def day_of_year_def yoe_def)
  have h: "era * 146097 + doe = z + 719468"
    by (simp add: era_def doe_def era_of_def day_of_era_def)
  have "days_from_civil (civil_year z) m (civil_day z)
        = era * 146097 + (yoe * 365 + yoe div 4 - yoe div 100 + doy) - 719468"
    unfolding days_from_civil_def Let_def y' e f mp' d by simp
  also have "\<dots> = z" unfolding g using h by simp
  finally show ?thesis by (simp add: m_def)
qed

text \<open>The fields of a time of day make up the time of day.\<close>

lemma time_of_day_sum:
  fixes ms :: int
  shows "ms div 3600000 * 3600000 + ms div 60000 mod 60 * 60000 + ms div 1000 mod 60 * 1000
         + ms mod 1000 = ms"
proof -
  define a where "a = ms div 1000"
  define b where "b = a div 60"
  define h where "h = b div 60"
  have b: "ms div 60000 = b"
    using zdiv_zmult2_eq [of 60 ms 1000] by (simp add: a_def b_def)
  have h: "ms div 3600000 = h"
    using zdiv_zmult2_eq [of 60 ms 60000] by (simp add: b h_def)
  have 1: "ms mod 1000 = ms - 1000 * a" by (simp add: a_def minus_mult_div_eq_mod)
  have 2: "a mod 60 = a - 60 * b" by (simp add: b_def minus_mult_div_eq_mod)
  have 3: "b mod 60 = b - 60 * h" by (simp add: h_def minus_mult_div_eq_mod)
  show ?thesis unfolding b h a_def [symmetric] 1 2 3 by simp
qed

lemma digit_value_digit:
  assumes "0 \<le> k" "k < 10"
  shows "digit_value 10 (''0123456789'' ! nat k) = Some k"
proof -
  from assms
  have "k = 0 \<or> k = 1 \<or> k = 2 \<or> k = 3 \<or> k = 4 \<or> k = 5 \<or> k = 6 \<or> k = 7 \<or> k = 8 \<or> k = 9"
    by arith
  then show ?thesis by (elim disjE) (simp_all add: digit_value_def)
qed

lemma digits_value_dec_digits:
  "0 \<le> n \<Longrightarrow>
   digits_value 10 acc (dec_digits n @ s) = digits_value 10 (acc * 10 ^ length (dec_digits n) + n) s"
proof (induction n arbitrary: acc s rule: dec_digits.induct)
  case (1 n)
  show ?case
  proof (cases "n < 10")
    case True
    then have l: "dec_digits n = [''0123456789'' ! nat n]"
      by (subst dec_digits.simps) simp
    from True "1.prems" digit_value_digit [of n] show ?thesis
      unfolding l by (simp add: mult.commute)
  next
    case False
    with "1.prems" have q: "0 \<le> n div 10" by simp
    have r: "0 \<le> n mod 10" "n mod 10 < 10" by simp_all
    have l: "dec_digits n = dec_digits (n div 10) @ [''0123456789'' ! nat (n mod 10)]"
      using False by (subst dec_digits.simps) simp
    have "digits_value 10 acc (dec_digits n @ s)
          = digits_value 10 (acc * 10 ^ length (dec_digits (n div 10)) + n div 10)
              ((''0123456789'' ! nat (n mod 10)) # s)"
      unfolding l using "1.IH" [OF False q] by simp
    also have "\<dots> = digits_value 10
                        (10 * (acc * 10 ^ length (dec_digits (n div 10)) + n div 10) + n mod 10) s"
      using digit_value_digit [OF r] by simp
    also have "10 * (acc * 10 ^ length (dec_digits (n div 10)) + n div 10) + n mod 10
               = acc * 10 ^ length (dec_digits n) + n"
      unfolding l by (simp add: algebra_simps)
    finally show ?thesis .
  qed
qed

lemma digits_value_zeros:
  "digits_value 10 0 (replicate k CHR ''0'' @ s) = digits_value 10 0 s"
  by (induction k) (simp_all add: digit_value_def)

text \<open>A padded number reads as that number.\<close>

lemma digits_value_pad: "0 \<le> n \<Longrightarrow> digits_value 10 0 (pad w n) = Some n"
  using digits_value_dec_digits [of n 0 "[]"] by (simp add: pad_def digits_value_zeros)

lemma pad_digits:
  assumes "0 < w" "n < 10 ^ w"
  shows "length (pad w n) = w" and "list_all is_digit (pad w n)"
proof -
  show "length (pad w n) = w"
    using dec_digits_length [OF assms] by (simp add: pad_def)
  have "is_digit CHR ''0''" by (simp add: is_digit_def)
  then show "list_all is_digit (pad w n)"
    using dec_digits_all [of n] by (auto simp: pad_def list_all_iff)
qed

lemma number_at_pad:
  assumes "0 \<le> n" "n < 10 ^ w" "0 < w" "length p = i"
  shows "number_at i w (p @ pad w n @ s) = n"
  using assms pad_digits(1) [OF assms(3,2)] digits_value_pad [OF assms(1), of w]
  by (simp add: number_at_def)

text \<open>Each field of the time is read back at its place after the year.\<close>

lemma iso_tail_fields:
  fixes m d h mi sc r :: int
  assumes k: "length p = k"
    and m: "0 \<le> m" "m < 100" and d: "0 \<le> d" "d < 100" and h: "0 \<le> h" "h < 100"
    and mi: "0 \<le> mi" "mi < 100" and sc: "0 \<le> sc" "sc < 100" and r: "0 \<le> r" "r < 1000"
  defines "s \<equiv> p @ ''-'' @ pad 2 m @ ''-'' @ pad 2 d @ ''T'' @ pad 2 h @ '':'' @ pad 2 mi @
                 '':'' @ pad 2 sc @ ''.'' @ pad 3 r @ ''Z''"
  shows "number_at (k + 1) 2 s = m" and "number_at (k + 4) 2 s = d"
    and "number_at (k + 7) 2 s = h" and "number_at (k + 10) 2 s = mi"
    and "number_at (k + 13) 2 s = sc" and "number_at (k + 16) 3 s = r"
proof -
  have two: "length (pad 2 n) = 2" if "n < 100" for n :: int
    using that pad_digits(1) [of 2 n] by simp
  note l = two [OF m(2)] two [OF d(2)] two [OF h(2)] two [OF mi(2)] two [OF sc(2)]
  show "number_at (k + 1) 2 s = m"
    using number_at_pad [of m 2 "p @ ''-''" "k + 1"] m k by (simp add: s_def)
  show "number_at (k + 4) 2 s = d"
    using number_at_pad [of d 2 "p @ ''-'' @ pad 2 m @ ''-''" "k + 4"] d k l by (simp add: s_def)
  show "number_at (k + 7) 2 s = h"
    using number_at_pad [of h 2 "p @ ''-'' @ pad 2 m @ ''-'' @ pad 2 d @ ''T''" "k + 7"] h k l
    by (simp add: s_def)
  show "number_at (k + 10) 2 s = mi"
    using number_at_pad
            [of mi 2 "p @ ''-'' @ pad 2 m @ ''-'' @ pad 2 d @ ''T'' @ pad 2 h @ '':''" "k + 10"]
          mi k l
    by (simp add: s_def)
  show "number_at (k + 13) 2 s = sc"
    using number_at_pad
            [of sc 2 "p @ ''-'' @ pad 2 m @ ''-'' @ pad 2 d @ ''T'' @ pad 2 h @ '':'' @
                      pad 2 mi @ '':''" "k + 13"]
          sc k l
    by (simp add: s_def)
  show "number_at (k + 16) 3 s = r"
    using number_at_pad
            [of r 3 "p @ ''-'' @ pad 2 m @ ''-'' @ pad 2 d @ ''T'' @ pad 2 h @ '':'' @
                     pad 2 mi @ '':'' @ pad 2 sc @ ''.''" "k + 16"]
          r k l
    by (simp add: s_def)
qed

text \<open>The text that \<^verbatim>\<open>toISOString\<close> prints for a time value denotes that time value.\<close>

lemma iso_time_toISOString:
  assumes "\<bar>t\<bar> \<le> 8640000000000000"
  shows "iso_time (Date_toISOString t) = Some t"
proof -
  define days where "days = t div 86400000"
  define ms where "ms = t mod 86400000"
  define y where "y = civil_year days"
  define tail where "tail = ''-'' @ pad 2 (civil_month days) @ ''-'' @ pad 2 (civil_day days) @
     ''T'' @ pad 2 (ms div 3600000) @ '':'' @ pad 2 (ms div 60000 mod 60) @ '':'' @
     pad 2 (ms div 1000 mod 60) @ ''.'' @ pad 3 (ms mod 1000) @ ''Z''"
  have s: "Date_toISOString t = year_text y @ tail"
    unfolding toISOString_unfold y_def tail_def days_def ms_def ..
  have shape: "iso8601_utc (Date_toISOString t)" by (rule toISOString_shape [OF assms])
  have yb: "\<bar>y\<bar> < 1000000"
    unfolding y_def days_def by (rule civil_year_bound [OF days_bound [OF assms]])
  have msb: "0 \<le> ms" by (simp add: ms_def)
  note tb = time_of_day_bounds [of t, folded ms_def]
  have mb: "0 \<le> civil_month days" "civil_month days < 100"
    and db: "0 \<le> civil_day days" "civil_day days < 100"
    using civil_range [of days] civil_day_bound [of days] by simp_all
  have hb: "0 \<le> ms div 3600000" "0 \<le> ms div 60000 mod 60" "0 \<le> ms div 1000 mod 60"
    "0 \<le> ms mod 1000"
    using msb by (simp_all add: pos_imp_zdiv_nonneg_iff)
  note f = iso_tail_fields [OF _ mb db hb(1) tb(1) hb(2) tb(2) hb(3) tb(3) hb(4) tb(4),
      folded tail_def]
  have v: "days_from_civil y (civil_month days) (civil_day days) * 86400000 +
           ms div 3600000 * 3600000 + ms div 60000 mod 60 * 60000 + ms div 1000 mod 60 * 1000 +
           ms mod 1000 = t"
  proof -
    have dm: "days * 86400000 + ms = t" by (simp add: days_def ms_def)
    have "days * 86400000 + (ms div 3600000 * 3600000 + ms div 60000 mod 60 * 60000 +
            ms div 1000 mod 60 * 1000 + ms mod 1000) = t"
      unfolding time_of_day_sum by (rule dm)
    then show ?thesis
      unfolding y_def days_from_civil_inverse by (simp only: add.assoc)
  qed
  show ?thesis
  proof (cases "0 \<le> y \<and> y \<le> 9999")
    case True
    then have yt: "year_text y = pad 4 y" by (simp add: year_text_def)
    from True have y4: "0 \<le> y" "y < 10 ^ 4" by simp_all
    have p4: "length (pad 4 y) = 4" "list_all is_digit (pad 4 y)"
      using pad_digits [of 4 y] y4 by simp_all
    obtain c cs where c: "pad 4 y = c # cs" using p4(1) by (cases "pad 4 y") simp_all
    with p4(2) have "is_digit c" by simp
    then have ns: "c \<noteq> CHR ''+''" "c \<noteq> CHR ''-''" by (auto simp: is_digit_def)
    have t1: "take (Suc 0) (Date_toISOString t) = [c]" by (simp add: s yt c)
    have yr: "number_at 0 4 (Date_toISOString t) = y"
      using number_at_pad [of y 4 "[]" 0 tail] y4 by (simp add: s yt)
    from f [of "pad 4 y" 4, OF p4(1), folded yt s]
    have g: "number_at 5 2 (Date_toISOString t) = civil_month days"
      "number_at 8 2 (Date_toISOString t) = civil_day days"
      "number_at 11 2 (Date_toISOString t) = ms div 3600000"
      "number_at 14 2 (Date_toISOString t) = ms div 60000 mod 60"
      "number_at 17 2 (Date_toISOString t) = ms div 1000 mod 60"
      "number_at 20 3 (Date_toISOString t) = ms mod 1000"
      by simp_all
    have "iso_time (Date_toISOString t) =
            Some (days_from_civil y (civil_month days) (civil_day days) * 86400000 +
                  ms div 3600000 * 3600000 + ms div 60000 mod 60 * 60000 +
                  ms div 1000 mod 60 * 1000 + ms mod 1000)"
      unfolding iso_time_def using shape by (simp add: t1 ns yr g Let_def)
    then show ?thesis unfolding v .
  next
    case False
    define sg where "sg = (if y < 0 then ''-'' else ''+'')"
    from False have yt: "year_text y = sg @ pad 6 \<bar>y\<bar>" by (auto simp: year_text_def sg_def)
    from yb have y6: "0 \<le> \<bar>y\<bar>" "\<bar>y\<bar> < 10 ^ 6" by simp_all
    have p6: "length (pad 6 \<bar>y\<bar>) = 6" using pad_digits(1) [of 6 "\<bar>y\<bar>"] y6 by simp
    have lsg: "length sg = 1" by (simp add: sg_def)
    have t1: "take (Suc 0) (Date_toISOString t) = sg" by (simp add: s yt sg_def)
    have yr: "number_at (Suc 0) 6 (Date_toISOString t) = \<bar>y\<bar>"
      using number_at_pad [of "\<bar>y\<bar>" 6 sg 1 tail] y6 lsg by (simp add: s yt)
    have l7: "length (sg @ pad 6 \<bar>y\<bar>) = 7" using p6 lsg by simp
    from f [of "sg @ pad 6 \<bar>y\<bar>" 7, OF l7, folded yt s]
    have g: "number_at 8 2 (Date_toISOString t) = civil_month days"
      "number_at 11 2 (Date_toISOString t) = civil_day days"
      "number_at 14 2 (Date_toISOString t) = ms div 3600000"
      "number_at 17 2 (Date_toISOString t) = ms div 60000 mod 60"
      "number_at 20 2 (Date_toISOString t) = ms div 1000 mod 60"
      "number_at 23 3 (Date_toISOString t) = ms mod 1000"
      by simp_all
    have sy: "sg = ''-'' \<longrightarrow> - \<bar>y\<bar> = y" "sg \<noteq> ''-'' \<longrightarrow> \<bar>y\<bar> = y"
      using False by (auto simp: sg_def)
    have sgn: "sg = ''+'' \<or> sg = ''-''" by (simp add: sg_def)
    have "iso_time (Date_toISOString t) =
            Some (days_from_civil y (civil_month days) (civil_day days) * 86400000 +
                  ms div 3600000 * 3600000 + ms div 60000 mod 60 * 60000 +
                  ms div 1000 mod 60 * 1000 + ms mod 1000)"
      unfolding iso_time_def using shape sgn sy by (auto simp: t1 yr g Let_def)
    then show ?thesis unfolding v .
  qed
qed

lemma example_iso_time: "iso_time ''2024-01-01T00:00:00.000Z'' = Some 1704067200000"
  by code_simp

subsection \<open>Authorisation\<close>

lemma bearer_token_iff:
  assumes "k \<noteq> []"
  shows "((if prefix ''Bearer '' (or_string h []) then drop 7 (or_string h []) else []) = k)
         = (h = Some (''Bearer '' @ k))"
proof
  assume a: "(if prefix ''Bearer '' (or_string h []) then drop 7 (or_string h []) else []) = k"
  with assms have p: "prefix ''Bearer '' (or_string h [])" and d: "drop 7 (or_string h []) = k"
    by (auto split: if_splits)
  from p obtain r where r: "or_string h [] = ''Bearer '' @ r" by (auto simp: prefix_def)
  with d have "r = k" by simp
  with r have "or_string h [] = ''Bearer '' @ k" by simp
  then show "h = Some (''Bearer '' @ k)" by (cases h) (auto split: if_splits)
next
  assume "h = Some (''Bearer '' @ k)"
  then show "(if prefix ''Bearer '' (or_string h []) then drop 7 (or_string h []) else []) = k"
    by simp
qed

lemma requireAuth_cases:
  "requireAuth cfg req = None \<or> requireAuth cfg req = Some unauthorized"
  by (simp add: requireAuth_def unauthorized_def Let_def)

lemma requireAuth_open: "API_KEY cfg = [] \<Longrightarrow> requireAuth cfg req = None"
  by (simp add: requireAuth_def)

lemma requireAuth_secret:
  "API_KEY cfg \<noteq> [] \<Longrightarrow>
   (requireAuth cfg req = None) = (headers req ''authorization'' = Some (''Bearer '' @ API_KEY cfg))"
  using bearer_token_iff [of "API_KEY cfg" "headers req ''authorization''"]
  by (simp add: requireAuth_def Let_def)

lemma status_post_not_401:
  "requireAuth cfg req = None \<Longrightarrow> status (fst (post_fire_events cfg e req s)) \<noteq> 401"
  by (simp add: post_fire_events_def Let_def split: sum.splits prod.splits)

lemma status_get_not_401:
  "requireAuth cfg req = None \<Longrightarrow> status (fst (get_fire_events cfg e req s)) \<noteq> 401"
  by (simp add: get_fire_events_def Let_def split: sum.splits prod.splits)

text \<open>
  C1. Without a configured secret \<^verbatim>\<open>requireAuth\<close> lets every request through. With a
  secret it lets a request through exactly when the \<^verbatim>\<open>Authorization\<close> header is
  \<^verbatim>\<open>Bearer\<close>, one space and the secret. A request let through is never answered 401;
  a request not let through is answered 401 with \<^verbatim>\<open>{ ok: false, error: "Unauthorized" }\<close>
  on both protected routes, the state is left as it was (nothing is stored, sent or
  logged) and no notification is pending.
\<close>

theorem requireAuth_gate:
  "(API_KEY cfg = [] \<longrightarrow> requireAuth cfg req = None) \<and>
   (API_KEY cfg \<noteq> [] \<longrightarrow>
      (requireAuth cfg req = None) =
      (headers req ''authorization'' = Some (''Bearer '' @ API_KEY cfg))) \<and>
   (requireAuth cfg req = None \<longrightarrow>
      status (fst (post_fire_events cfg e req s)) \<noteq> 401 \<and>
      status (fst (get_fire_events cfg e req s)) \<noteq> 401) \<and>
   (requireAuth cfg req \<noteq> None \<longrightarrow>
      post_fire_events cfg e req s = (unauthorized, s, None) \<and>
      get_fire_events cfg e req s = (unauthorized, s))"
proof (intro conjI impI)
  assume "requireAuth cfg req \<noteq> None"
  with requireAuth_cases [of cfg req] have r: "requireAuth cfg req = Some unauthorized" by simp
  show "post_fire_events cfg e req s = (unauthorized, s, None)"
    by (simp add: post_fire_events_def r)
  show "get_fire_events cfg e req s = (unauthorized, s)"
    by (simp add: get_fire_events_def r)
qed (simp_all add: requireAuth_open requireAuth_secret status_post_not_401 status_get_not_401)

theorem requireAuth_gate_witness:
  "requireAuth (example_config []) (example_request None None) = None \<and>
   requireAuth (example_config []) (example_request (Some ''Bearer zzz'') None) = None \<and>
   requireAuth (example_config ''abc'') (example_request (Some ''Bearer abc'') None) = None \<and>
   requireAuth (example_config ''abc'') (example_request (Some ''Bearer wrong'') None) \<noteq> None \<and>
   requireAuth (example_config ''abc'') (example_request None None) \<noteq> None \<and>
   status (fst (post_fire_events (example_config ''abc'') example_env
                  (example_request (Some ''Bearer abc'') (Some example_body)) empty_server)) \<noteq> 401 \<and>
   post_fire_events (example_config ''abc'') example_env
     (example_request (Some ''Bearer wrong'') (Some example_body)) empty_server
     = (unauthorized, empty_server, None) \<and>
   get_fire_events (example_config ''abc'') example_env (example_request None None) empty_server
     = (unauthorized, empty_server)"
proof -
  have k0: "API_KEY (example_config []) = []" and k1: "API_KEY (example_config ''abc'') \<noteq> []"
    by (simp_all add: example_config_def)
  have h1: "headers (example_request (Some ''Bearer abc'') b) ''authorization''
            = Some (''Bearer '' @ API_KEY (example_config ''abc''))" for b
    by (simp add: example_request_def example_config_def)
  have h2: "headers (example_request (Some ''Bearer wrong'') b) ''authorization''
            \<noteq> Some (''Bearer '' @ API_KEY (example_config ''abc''))" for b
    by (simp add: example_request_def example_config_def)
  have h3: "headers (example_request None b) ''authorization''
            \<noteq> Some (''Bearer '' @ API_KEY (example_config ''abc''))" for b
    by (simp add: example_request_def example_config_def)
  note g = requireAuth_gate
  show ?thesis
    using g [of "example_config []" "example_request None None"]
      g [of "example_config []" "example_request (Some ''Bearer zzz'') None"]
      g [of "example_config ''abc''" "example_request (Some ''Bearer abc'') None"]
      g [of "example_config ''abc''" "example_request (Some ''Bearer abc'') (Some example_body)"
            example_env empty_server]
      g [of "example_config ''abc''" "example_request (Some ''Bearer wrong'') None"]
      g [of "example_config ''abc''" "example_request (Some ''Bearer wrong'') (Some example_body)"
            example_env empty_server]
      g [of "example_config ''abc''" "example_request None None" example_env empty_server]
      k0 k1 h1 h2 h3
    by simp
qed

subsection \<open>The store\<close>

lemma FireEvent_create_Inr:
  "FireEvent_create e ev db = Inr (saved, db') \<Longrightarrow>
     db' = db @ [saved] \<and>
     saved = document_of e ev \<and>
     timestamp ev \<noteq> [] \<and> db_failure e = None"
  by (auto simp: FireEvent_create_def Let_def split: if_splits option.splits)

lemma collection_after_eq:
  "collection_after cfg e req s =
     (case requireAuth cfg req of
        Some r \<Rightarrow> fire_events s
      | None \<Rightarrow>
          (case FireEvent_create e (build_event e req) (fire_events s) of
             Inl err \<Rightarrow> fire_events s
           | Inr (saved, db) \<Rightarrow> db))"
  by (simp add: collection_after_def post_fire_events_def Let_def
      split: option.splits sum.splits prod.splits)

text \<open>A record that a create request adds to the collection is the normalised event
  with the identifier and the insertion time of the store.\<close>

lemma stored_record:
  assumes "collection_after cfg e req s = fire_events s @ [d]"
  shows "d = document_of e (build_event e req)"
  using assms
  by (auto simp: collection_after_eq split: option.splits sum.splits dest!: FireEvent_create_Inr)

text \<open>An authorised request whose timestamp is not the empty string is stored unless the
  database fails.\<close>

lemma create_succeeds:
  assumes "requireAuth cfg req = None" and "db_failure e = None"
    and "timestamp (build_event e req) \<noteq> []"
  shows "collection_after cfg e req s =
           fire_events s @
             [document_of e (build_event e req)]"
  using assms by (simp add: collection_after_eq FireEvent_create_def Let_def)

text \<open>So is every authorised request without a string for a timestamp, since the
  clock never prints as the empty string.\<close>

lemma toISOString_not_empty: "Date_toISOString t \<noteq> []"
  by (simp add: Date_toISOString_def Let_def)

lemma string_or_default: "(\<And>v. x \<noteq> Some (JStr v)) \<Longrightarrow> string_or x d = d"
  by (cases "(x, d)" rule: string_or.cases) auto

lemma create_succeeds_default:
  assumes "requireAuth cfg req = None" and "db_failure e = None"
    and "\<And>v. get_prop (body_or_empty req) ''timestamp'' \<noteq> Some (JStr v)"
  shows "\<exists>d. collection_after cfg e req s = fire_events s @ [d]"
proof -
  have "timestamp (build_event e req) = Date_toISOString (handler_time e)"
    using string_or_default [OF assms(3)] by (simp add: build_event_def Let_def)
  with toISOString_not_empty have "timestamp (build_event e req) \<noteq> []" by simp
  from create_succeeds [OF assms(1,2) this] show ?thesis by blast
qed

lemma extend_fields:
  "timestamp (document_of e ev) = timestamp ev"
  "score (document_of e ev) = score ev"
  "best (document_of e ev) = minimize (best ev)"
  "snapshot_filename (document_of e ev) = snapshot_filename ev"
  "image_url (document_of e ev) = image_url ev"
  "cloudinary_public_id (document_of e ev) = cloudinary_public_id ev"
  "ip (document_of e ev) = ip ev"
  "user_agent (document_of e ev) = user_agent ev"
  "received_at (document_of e ev) = insert_time e"
  "doc_id (document_of e ev) = fresh_id e"
  "version_key (document_of e ev) = 0"
  by (simp_all add: document_of_def)

lemma build_event_cong:
  assumes "headers r' = headers r" and "remoteAddress r' = remoteAddress r"
    and "\<forall>n \<in> set body_names. get_prop (body_or_empty r') n = get_prop (body_or_empty r) n"
  shows "build_event e r' = build_event e r"
  using assms by (simp add: build_event_def Let_def body_names_def)

lemma requireAuth_cong: "headers r' = headers r \<Longrightarrow> requireAuth cfg r' = requireAuth cfg r"
  by (simp add: requireAuth_def)

text \<open>The create handler reads of a request its headers, the peer address and the six
  named properties of the body, and nothing else.\<close>

lemma post_fire_events_cong:
  assumes "headers r' = headers r" and "remoteAddress r' = remoteAddress r"
    and "\<forall>n \<in> set body_names. get_prop (body_or_empty r') n = get_prop (body_or_empty r) n"
  shows "post_fire_events cfg e r' s = post_fire_events cfg e r s"
  unfolding post_fire_events_def
  by (simp only: build_event_cong [OF assms] requireAuth_cong [OF assms(1)])

lemma body_or_empty_object [simp]: "body_or_empty (r\<lparr>body := Some (JObj kvs)\<rparr>) = JObj kvs"
  by (simp add: body_or_empty_def)

text \<open>The sample request on the empty server stores the sample record.\<close>

lemma example_post_stored:
  "collection_after (example_config ''abc'') example_env example_post empty_server
     = fire_events empty_server @ [example_saved]"
  by (simp add: collection_after_eq requireAuth_def example_config_def example_post_def
      example_request_def example_env_def empty_server_def example_body_def example_saved_def
      FireEvent_create_def build_event_def body_or_empty_def Let_def document_of_def)

subsection \<open>Normalisation of the stored record\<close>

text \<open>
  C4. A record that a create request adds to the collection carries the clock of the
  store at insertion as its \<^verbatim>\<open>received_at\<close>, and a \<^verbatim>\<open>received_at\<close> property in
  the request body changes nothing: the response, the state and the pending notification
  are the same with it and without it.
\<close>

theorem received_at_server_assigned:
  "(collection_after cfg e req s = fire_events s @ [d] \<longrightarrow> received_at d = insert_time e) \<and>
   post_fire_events cfg e (req\<lparr>body := Some (JObj ((''received_at'', v) # kvs))\<rparr>) s
     = post_fire_events cfg e (req\<lparr>body := Some (JObj kvs)\<rparr>) s"
proof
  show "collection_after cfg e req s = fire_events s @ [d] \<longrightarrow> received_at d = insert_time e"
    by (auto dest!: stored_record simp: extend_fields)
  show "post_fire_events cfg e (req\<lparr>body := Some (JObj ((''received_at'', v) # kvs))\<rparr>) s
     = post_fire_events cfg e (req\<lparr>body := Some (JObj kvs)\<rparr>) s"
    by (intro post_fire_events_cong) (simp_all add: body_names_def)
qed

theorem received_at_server_assigned_witness:
  "collection_after (example_config ''abc'') example_env example_post empty_server
     = fire_events empty_server @ [example_saved] \<and>
   received_at example_saved = 1704067200005 \<and>
   insert_time example_env = 1704067200005"
  using received_at_server_assigned
          [of "example_config ''abc''" example_env example_post empty_server example_saved,
           THEN conjunct1]
        example_post_stored
  by (simp add: example_env_def example_saved_def)

text \<open>
  C5. In a record that a create request adds to the collection, each of \<^verbatim>\<open>score\<close>,
  \<^verbatim>\<open>snapshot_filename\<close>, \<^verbatim>\<open>image_url\<close> and \<^verbatim>\<open>cloudinary_public_id\<close> is the value of
  that property in the request body when the value is a string, and the empty string
  when the property is missing or has a value of any other type.
\<close>

theorem string_fields_normalised:
  assumes "collection_after cfg e req s = fire_events s @ [d]"
  shows "score d = (case get_prop (body_or_empty req) ''score'' of Some (JStr v) \<Rightarrow> v | _ \<Rightarrow> []) \<and>
         snapshot_filename d =
           (case get_prop (body_or_empty req) ''snapshot_filename'' of Some (JStr v) \<Rightarrow> v | _ \<Rightarrow> []) \<and>
         image_url d =
           (case get_prop (body_or_empty req) ''image_url'' of Some (JStr v) \<Rightarrow> v | _ \<Rightarrow> []) \<and>
         cloudinary_public_id d =
           (case get_prop (body_or_empty req) ''cloudinary_public_id'' of Some (JStr v) \<Rightarrow> v | _ \<Rightarrow> [])"
proof -
  note d = stored_record [OF assms]
  show ?thesis
    by (intro conjI)
      (simp_all add: d extend_fields build_event_def Let_def split: option.splits json.splits)
qed

theorem string_fields_normalised_witness:
  "collection_after (example_config ''abc'') example_env example_post empty_server
     = fire_events empty_server @ [example_saved] \<and>
   score example_saved = ''0.9'' \<and> snapshot_filename example_saved = [] \<and>
   image_url example_saved = ''http://x/img.jpg'' \<and> cloudinary_public_id example_saved = []"
  using string_fields_normalised [OF example_post_stored] example_post_stored
  by (simp add: example_post_def example_request_def example_body_def body_or_empty_def)

lemma example_iso: "Date_toISOString 1704067200000 = ''2024-01-01T00:00:00.000Z''"
  by code_simp

lemma example_untimed_stored:
  "collection_after (example_config []) example_env
     (example_request None (Some (JObj [(''timestamp'', JNum (Fin 17))]))) empty_server
     = fire_events empty_server @ [example_untimed]"
  by (simp add: collection_after_eq requireAuth_def example_config_def
      example_request_def example_env_def empty_server_def example_untimed_def
      FireEvent_create_def build_event_def body_or_empty_def Let_def document_of_def
      example_iso)

text \<open>
  C6. In a record that a create request adds to the collection, \<^verbatim>\<open>timestamp\<close> is the
  value of that property in the request body when the value is a string, and otherwise
  (missing, or of any other type) the handler's clock printed by \<^verbatim>\<open>toISOString\<close>.
  An authorised request is stored, the database working, in two cases. When the body
  has no string for a timestamp: the stored timestamp is then a text in the ISO 8601
  format, and the time it denotes is the handler's clock. When the timestamp of the body
  is a string that is not empty: it is stored as it is. The empty string as timestamp
  is not stored: the answer is 500 with the validation error of the schema, and the
  state is left as it was.
\<close>

theorem timestamp_normalised:
  "(collection_after cfg e req s = fire_events s @ [d] \<longrightarrow>
      timestamp d =
        (case get_prop (body_or_empty req) ''timestamp'' of
            Some (JStr v) \<Rightarrow> v
          | _ \<Rightarrow> Date_toISOString (handler_time e))) \<and>
   (requireAuth cfg req = None \<and> db_failure e = None \<and>
    (\<forall>v. get_prop (body_or_empty req) ''timestamp'' \<noteq> Some (JStr v)) \<and>
    \<bar>handler_time e\<bar> \<le> 8640000000000000 \<longrightarrow>
      (\<exists>d'. collection_after cfg e req s = fire_events s @ [d'] \<and>
            timestamp d' = Date_toISOString (handler_time e) \<and>
            iso8601_utc (timestamp d') \<and>
            iso_time (timestamp d') = Some (handler_time e))) \<and>
   (requireAuth cfg req = None \<and> db_failure e = None \<and>
    get_prop (body_or_empty req) ''timestamp'' = Some (JStr w) \<and> w \<noteq> [] \<longrightarrow>
      (\<exists>d'. collection_after cfg e req s = fire_events s @ [d'] \<and> timestamp d' = w)) \<and>
   (requireAuth cfg req = None \<and>
    get_prop (body_or_empty req) ''timestamp'' = Some (JStr []) \<longrightarrow>
      post_fire_events cfg e req s =
        (\<lparr>status = 500,
          payload = Failed False ''Failed to store event'' (ValidationError ''timestamp'')\<rparr>,
         s, None))"
proof -
  have ts: "timestamp (build_event e req) =
              string_or (get_prop (body_or_empty req) ''timestamp'')
                (Date_toISOString (handler_time e))"
    by (simp add: build_event_def Let_def)
  have b: "string_or x y = (case x of Some (JStr v) \<Rightarrow> v | _ \<Rightarrow> y)" for x y
    by (cases "(x, y)" rule: string_or.cases) simp_all
  have 1: "timestamp d =
        (case get_prop (body_or_empty req) ''timestamp'' of
            Some (JStr v) \<Rightarrow> v
          | _ \<Rightarrow> Date_toISOString (handler_time e))"
    if "collection_after cfg e req s = fire_events s @ [d]"
    using stored_record [OF that] by (simp add: extend_fields ts b)
  have 2: "\<exists>d'. collection_after cfg e req s = fire_events s @ [d'] \<and>
            timestamp d' = Date_toISOString (handler_time e) \<and>
            iso8601_utc (timestamp d') \<and>
            iso_time (timestamp d') = Some (handler_time e)"
    if h: "requireAuth cfg req = None \<and> db_failure e = None \<and>
           (\<forall>v. get_prop (body_or_empty req) ''timestamp'' \<noteq> Some (JStr v)) \<and>
           \<bar>handler_time e\<bar> \<le> 8640000000000000"
  proof -
    from h have "string_or (get_prop (body_or_empty req) ''timestamp'')
                 (Date_toISOString (handler_time e)) = Date_toISOString (handler_time e)"
      by (intro string_or_default) simp
    with ts have t: "timestamp (build_event e req) = Date_toISOString (handler_time e)" by simp
    with toISOString_not_empty have n: "timestamp (build_event e req) \<noteq> []" by simp
    from h have a: "requireAuth cfg req = None" and f: "db_failure e = None"
      and r: "\<bar>handler_time e\<bar> \<le> 8640000000000000" by simp_all
    note c = create_succeeds [OF a f n, of s]
    have "timestamp (document_of e (build_event e req)) = Date_toISOString (handler_time e)"
      by (simp add: extend_fields t)
    with c toISOString_shape [OF r] iso_time_toISOString [OF r] show ?thesis by simp
  qed
  have 3: "\<exists>d'. collection_after cfg e req s = fire_events s @ [d'] \<and> timestamp d' = w"
    if h: "requireAuth cfg req = None \<and> db_failure e = None \<and>
           get_prop (body_or_empty req) ''timestamp'' = Some (JStr w) \<and> w \<noteq> []"
  proof -
    from h ts have t: "timestamp (build_event e req) = w" by simp
    with h have n: "timestamp (build_event e req) \<noteq> []" by simp
    from h have a: "requireAuth cfg req = None" and f: "db_failure e = None" by simp_all
    note c = create_succeeds [OF a f n, of s]
    have "timestamp (document_of e (build_event e req)) = w"
      by (simp add: extend_fields t)
    with c show ?thesis by simp
  qed
  have 4: "post_fire_events cfg e req s =
        (\<lparr>status = 500,
          payload = Failed False ''Failed to store event'' (ValidationError ''timestamp'')\<rparr>,
         s, None)"
    if h: "requireAuth cfg req = None \<and>
           get_prop (body_or_empty req) ''timestamp'' = Some (JStr [])"
  proof -
    from h ts have "timestamp (build_event e req) = []" by simp
    then have "FireEvent_create e (build_event e req) (fire_events s)
               = Inl (ValidationError ''timestamp'')"
      by (simp add: FireEvent_create_def)
    with h show ?thesis by (simp add: post_fire_events_def Let_def)
  qed
  from 1 2 3 4 show ?thesis by blast
qed

theorem timestamp_normalised_witness:
  "collection_after (example_config ''abc'') example_env example_post empty_server
     = fire_events empty_server @ [example_saved] \<and>
   timestamp example_saved = ''2024-01-01T00:00:00Z'' \<and>
   collection_after (example_config []) example_env
     (example_request None (Some (JObj [(''timestamp'', JNum (Fin 17))]))) empty_server
     = fire_events empty_server @ [example_untimed] \<and>
   timestamp example_untimed = ''2024-01-01T00:00:00.000Z'' \<and>
   iso8601_utc (timestamp example_untimed) \<and>
   iso_time (timestamp example_untimed) = Some (handler_time example_env) \<and>
   handler_time example_env = 1704067200000 \<and>
   post_fire_events (example_config []) example_env
     (example_request None (Some (JObj [(''timestamp'', JStr [])]))) empty_server
     = (\<lparr>status = 500,
         payload = Failed False ''Failed to store event'' (ValidationError ''timestamp'')\<rparr>,
        empty_server, None)"
proof -
  note n = timestamp_normalised
  have a0: "requireAuth (example_config []) r = None" for r
    by (simp add: requireAuth_def example_config_def)
  have a1: "requireAuth (example_config ''abc'') example_post = None"
    by (simp add: requireAuth_def example_config_def example_post_def example_request_def)
  have f: "db_failure example_env = None" and c: "handler_time example_env = 1704067200000"
    and r: "\<bar>handler_time example_env\<bar> \<le> 8640000000000000"
    by (simp_all add: example_env_def)
  have p: "get_prop (body_or_empty example_post) ''timestamp'' = Some (JStr ''2024-01-01T00:00:00Z'')"
    by (simp add: example_post_def example_request_def example_body_def body_or_empty_def)
  have u: "\<forall>v. get_prop (body_or_empty
              (example_request None (Some (JObj [(''timestamp'', JNum (Fin 17))]))))
            ''timestamp'' \<noteq> Some (JStr v)"
    by (simp add: example_request_def body_or_empty_def)
  have z: "get_prop (body_or_empty (example_request None (Some (JObj [(''timestamp'', JStr [])]))))
            ''timestamp'' = Some (JStr [])"
    by (simp add: example_request_def body_or_empty_def)
  from n [of "example_config ''abc''" example_env example_post empty_server _
            "''2024-01-01T00:00:00Z''"] a1 f p
  obtain d1 where d1: "collection_after (example_config ''abc'') example_env example_post
                         empty_server = fire_events empty_server @ [d1]"
    and t1: "timestamp d1 = ''2024-01-01T00:00:00Z''"
    by auto
  from d1 example_post_stored have e1: "d1 = example_saved" by simp
  from n [of "example_config []" example_env
            "example_request None (Some (JObj [(''timestamp'', JNum (Fin 17))]))" empty_server]
       a0 f u r
  obtain d2 where d2: "collection_after (example_config []) example_env
                         (example_request None (Some (JObj [(''timestamp'', JNum (Fin 17))])))
                         empty_server = fire_events empty_server @ [d2]"
    and t2: "timestamp d2 = Date_toISOString (handler_time example_env)"
    and i2: "iso8601_utc (timestamp d2)"
    and v2: "iso_time (timestamp d2) = Some (handler_time example_env)"
    by blast
  from d2 example_untimed_stored have e2: "d2 = example_untimed" by simp
  from n [of "example_config []" example_env
            "example_request None (Some (JObj [(''timestamp'', JStr [])]))" empty_server]
       a0 z
  have 4: "post_fire_events (example_config []) example_env
     (example_request None (Some (JObj [(''timestamp'', JStr [])]))) empty_server
     = (\<lparr>status = 500,
         payload = Failed False ''Failed to store event'' (ValidationError ''timestamp'')\<rparr>,
        empty_server, None)"
    by blast
  from t1 e1 have 1: "timestamp example_saved = ''2024-01-01T00:00:00Z''" by simp
  from t2 e2 c have 2: "timestamp example_untimed = ''2024-01-01T00:00:00.000Z''"
    by (simp add: example_iso)
  from i2 v2 e2 have 3: "iso8601_utc (timestamp example_untimed)"
    "iso_time (timestamp example_untimed) = Some (handler_time example_env)" by simp_all
  from 1 2 3 4 c example_post_stored example_untimed_stored show ?thesis by simp
qed

text \<open>A timestamp that is the empty string is a string, and no record is stored for
  it.\<close>

theorem empty_timestamp_counterexample:
  "post_fire_events (example_config []) example_env
     (example_request None (Some (JObj [(''timestamp'', JStr [])]))) empty_server
   = (\<lparr>status = 500,
       payload = Failed False ''Failed to store event'' (ValidationError ''timestamp'')\<rparr>,
      empty_server, None)"
  by (simp add: post_fire_events_def requireAuth_def example_config_def example_request_def
      FireEvent_create_def build_event_def body_or_empty_def Let_def)


lemma example_bare_stored:
  "collection_after (example_config []) example_env (example_request None (Some example_bare))
     empty_server
     = fire_events empty_server @ [example_unlabelled]"
  by (simp add: collection_after_eq requireAuth_def example_config_def
      example_request_def example_env_def empty_server_def example_unlabelled_def example_bare_def
      FireEvent_create_def build_event_def body_or_empty_def Let_def document_of_def)




text \<open>
  C10. Two request bodies that agree on the six properties the handler reads give the
  same response, the same state (so the same stored record) and the same pending
  notification: whatever else a body holds is dropped. A record that a create request
  adds to the collection consists of the identifier and the insertion time assigned by
  the store, the version key \<^verbatim>\<open>__v\<close> at 0, the five normalised strings of the body,
  \<^verbatim>\<open>best\<close> normalised and minimized, and \<^verbatim>\<open>ip\<close> and \<^verbatim>\<open>user_agent\<close> taken from the
  request's headers and socket; its keys are those eleven, or the ten others when
  \<^verbatim>\<open>best\<close> is minimized away.
\<close>

theorem unread_fields_discarded:
  "((\<forall>n \<in> set body_names. map_of kvs' n = map_of kvs n) \<longrightarrow>
      post_fire_events cfg e (req\<lparr>body := Some (JObj kvs')\<rparr>) s
      = post_fire_events cfg e (req\<lparr>body := Some (JObj kvs)\<rparr>) s) \<and>
   (collection_after cfg e req s = fire_events s @ [d] \<longrightarrow>
      d = \<lparr>timestamp = string_or (get_prop (body_or_empty req) ''timestamp'')
                         (Date_toISOString (handler_time e)),
           score = string_or (get_prop (body_or_empty req) ''score'') [],
           best = minimize (object_or_null (get_prop (body_or_empty req) ''best'')),
           snapshot_filename = string_or (get_prop (body_or_empty req) ''snapshot_filename'') [],
           image_url = string_or (get_prop (body_or_empty req) ''image_url'') [],
           cloudinary_public_id = string_or (get_prop (body_or_empty req) ''cloudinary_public_id'') [],
           ip = or_string (headers req ''x-forwarded-for'') (or_string (remoteAddress req) []),
           user_agent = or_string (headers req ''user-agent'') [],
           doc_id = fresh_id e, received_at = insert_time e, version_key = 0\<rparr> \<and>
      set (document_keys d) =
         {''_id'', ''received_at'', ''timestamp'', ''score'', ''snapshot_filename'', ''image_url'',
           ''cloudinary_public_id'', ''ip'', ''user_agent'', ''__v''} \<union>
          (if best d = None then {} else {''best''}))"
proof (intro conjI impI)
  assume "\<forall>n \<in> set body_names. map_of kvs' n = map_of kvs n"
  then show "post_fire_events cfg e (req\<lparr>body := Some (JObj kvs')\<rparr>) s
      = post_fire_events cfg e (req\<lparr>body := Some (JObj kvs)\<rparr>) s"
    by (intro post_fire_events_cong) simp_all
next
  assume "collection_after cfg e req s = fire_events s @ [d]"
  from stored_record [OF this] show "d = \<lparr>timestamp = string_or (get_prop (body_or_empty req) ''timestamp'')
                         (Date_toISOString (handler_time e)),
           score = string_or (get_prop (body_or_empty req) ''score'') [],
           best = minimize (object_or_null (get_prop (body_or_empty req) ''best'')),
           snapshot_filename = string_or (get_prop (body_or_empty req) ''snapshot_filename'') [],
           image_url = string_or (get_prop (body_or_empty req) ''image_url'') [],
           cloudinary_public_id = string_or (get_prop (body_or_empty req) ''cloudinary_public_id'') [],
           ip = or_string (headers req ''x-forwarded-for'') (or_string (remoteAddress req) []),
           user_agent = or_string (headers req ''user-agent'') [],
           doc_id = fresh_id e, received_at = insert_time e, version_key = 0\<rparr>"
    by (simp add: build_event_def Let_def document_of_def)
next
  show "set (document_keys d) =
         {''_id'', ''received_at'', ''timestamp'', ''score'', ''snapshot_filename'', ''image_url'',
           ''cloudinary_public_id'', ''ip'', ''user_agent'', ''__v''} \<union>
          (if best d = None then {} else {''best''})"
    by (cases "best d") (auto simp: document_keys_def)
qed

theorem unread_fields_discarded_witness:
  "list_all
     (\<lambda>n. map_of [(''admin'', JBool True), (''score'', JStr ''0.9''), (''doc_id'', JStr ''x'')] n
          = map_of [(''score'', JStr ''0.9'')] n) body_names \<and>
   post_fire_events (example_config []) example_env
     (example_request None None
        \<lparr>body := Some (JObj [(''admin'', JBool True), (''score'', JStr ''0.9''), (''doc_id'', JStr ''x'')])\<rparr>)
     empty_server
   = post_fire_events (example_config []) example_env
     (example_request None None\<lparr>body := Some (JObj [(''score'', JStr ''0.9'')])\<rparr>) empty_server \<and>
   collection_after (example_config ''abc'') example_env example_post empty_server
     = fire_events empty_server @ [example_saved] \<and>
   doc_id example_saved = fresh_id example_env \<and>
   set (document_keys example_saved) =
     {''_id'', ''received_at'', ''timestamp'', ''score'', ''best'', ''snapshot_filename'',
      ''image_url'', ''cloudinary_public_id'', ''ip'', ''user_agent'', ''__v''}"
proof -
  have h: "\<forall>n \<in> set body_names.
      map_of [(''admin'', JBool True), (''score'', JStr ''0.9''), (''doc_id'', JStr ''x'')] n
      = map_of [(''score'', JStr ''0.9'')] n"
    by (simp add: body_names_def)
  have i: "doc_id example_saved = fresh_id example_env"
    by (simp add: example_saved_def example_env_def)
  have b: "best example_saved \<noteq> None"
    by (simp add: example_saved_def)
  from unread_fields_discarded
         [of _ _ "example_config ''abc''" example_env example_post empty_server example_saved,
          THEN conjunct2]
       example_post_stored b
  have k: "set (document_keys example_saved) =
     {''_id'', ''received_at'', ''timestamp'', ''score'', ''best'', ''snapshot_filename'',
      ''image_url'', ''cloudinary_public_id'', ''ip'', ''user_agent'', ''__v''}"
    by auto
  from unread_fields_discarded
         [of "[(''admin'', JBool True), (''score'', JStr ''0.9''), (''doc_id'', JStr ''x'')]"
             "[(''score'', JStr ''0.9'')]" "example_config []" example_env
             "example_request None None" empty_server, THEN conjunct1]
       h i k example_post_stored
  show ?thesis by (simp add: list_all_iff)
qed

text \<open>The record stored for the sample request has eleven keys, the version key among
  them, and the record stored for an empty \<^verbatim>\<open>best\<close> has no \<^verbatim>\<open>best\<close>.\<close>

theorem stored_keys_counterexample:
  "map document_keys
     (collection_after (example_config ''abc'') example_env example_post empty_server)
   = [[''_id'', ''received_at'', ''timestamp'', ''score'', ''best'', ''snapshot_filename'',
       ''image_url'', ''cloudinary_public_id'', ''ip'', ''user_agent'', ''__v'']] \<and>
   map document_keys
     (collection_after (example_config []) example_env
        (example_request None (Some example_bare)) empty_server)
   = [[''_id'', ''received_at'', ''timestamp'', ''score'', ''snapshot_filename'',
       ''image_url'', ''cloudinary_public_id'', ''ip'', ''user_agent'', ''__v'']]"
  unfolding example_post_stored example_bare_stored
  by (simp add: empty_server_def document_keys_def example_saved_def example_unlabelled_def)

subsection \<open>Store failure and dispatch\<close>

lemma post_fire_events_store_failure:
  assumes "requireAuth cfg req = None"
    and "FireEvent_create e (build_event e req) (fire_events s) = Inl err"
  shows "post_fire_events cfg e req s =
           (\<lparr>status = 500, payload = Failed False ''Failed to store event'' err\<rparr>, s, None)"
  using assms by (simp add: post_fire_events_def Let_def)

lemma dispatch_needs_store:
  assumes "snd (snd (post_fire_events cfg e req s)) \<noteq> None
           \<or> outbox (fst (snd (post_fire_events cfg e req s))) \<noteq> outbox s
           \<or> console (fst (snd (post_fire_events cfg e req s))) \<noteq> console s"
  shows "\<exists>saved. FireEvent_create e (build_event e req) (fire_events s)
                   = Inr (saved, fire_events s @ [saved])"
proof (cases "requireAuth cfg req")
  case (Some a)
  with assms show ?thesis by (simp add: post_fire_events_def)
next
  case None
  show ?thesis
  proof (cases "FireEvent_create e (build_event e req) (fire_events s)")
    case (Inl err)
    from post_fire_events_store_failure [OF None Inl] assms show ?thesis by simp
  next
    case (Inr p)
    obtain saved db where p: "p = (saved, db)" by (cases p)
    from Inr p FireEvent_create_Inr [of e "build_event e req" "fire_events s" saved db]
    show ?thesis by simp
  qed
qed

text \<open>
  C8. When the write to the store fails in an authorised create request, the response is
  500 with \<^verbatim>\<open>{ ok: false, error: "Failed to store event", details }\<close>, the state is
  left as it was and no notification is pending. Conversely, whenever a notification is
  pending, a message has been handed to the messaging API or a line has been logged, the
  write to the store has succeeded.
\<close>

theorem store_failure_terminal:
  "(requireAuth cfg req = None \<and>
    FireEvent_create e (build_event e req) (fire_events s) = Inl err \<longrightarrow>
      post_fire_events cfg e req s =
        (\<lparr>status = 500, payload = Failed False ''Failed to store event'' err\<rparr>, s, None)) \<and>
   (snd (snd (post_fire_events cfg e req s)) \<noteq> None
      \<or> outbox (fst (snd (post_fire_events cfg e req s))) \<noteq> outbox s
      \<or> console (fst (snd (post_fire_events cfg e req s))) \<noteq> console s \<longrightarrow>
      (\<exists>saved. FireEvent_create e (build_event e req) (fire_events s)
                 = Inr (saved, fire_events s @ [saved])))"
  using post_fire_events_store_failure [of cfg req e s err] dispatch_needs_store [of cfg e req s]
  by blast

lemma example_config_fields:
  "API_KEY (example_config k) = k"
  "WA_PHONE_NUMBER_ID (example_config k) = ''15550001''"
  "WA_ACCESS_TOKEN (example_config k) = ''token''"
  "WA_TO (example_config k) = ''447700900000''"
  by (simp_all add: example_config_def)

lemma empty_server_fields:
  "fire_events empty_server = []" "outbox empty_server = []" "console empty_server = []"
  by (simp_all add: empty_server_def)

lemma example_post_authorised: "requireAuth (example_config ''abc'') example_post = None"
  by (simp add: requireAuth_def example_config_def example_post_def example_request_def)

lemma example_post_event:
  "build_event e example_post =
     \<lparr>timestamp = ''2024-01-01T00:00:00Z'', score = ''0.9'',
      best = JObj [(''label'', JStr ''fire''), (''conf'', JNum (Fin (3 / 4)))],
      snapshot_filename = [], image_url = ''http://x/img.jpg'', cloudinary_public_id = [],
      ip = ''10.0.0.7'', user_agent = []\<rparr>"
  by (simp add: build_event_def example_post_def example_request_def example_body_def
      body_or_empty_def)

lemma example_post_msg: "msgText (build_event e example_post) = Inr example_msg"
  unfolding example_post_event by code_simp

lemma example_post_created:
  "FireEvent_create example_env (build_event example_env example_post) []
     = Inr (example_saved, [example_saved])"
  by (simp add: FireEvent_create_def example_post_event example_env_def example_saved_def
      document_of_def Let_def)

lemma example_post_response:
  "fst (post_fire_events (example_config ''abc'') example_env example_post empty_server)
     = \<lparr>status = 200, payload = Stored True ''Event stored'' example_saved\<rparr>"
  by (simp add: post_fire_events_def example_post_authorised example_post_msg
      example_post_created empty_server_fields example_config_fields Let_def split: prod.splits)

lemma example_post_outbox:
  "outbox (fst (snd (post_fire_events (example_config ''abc'') example_env example_post
                       empty_server))) \<noteq> outbox empty_server"
  by (simp add: post_fire_events_def example_post_authorised example_post_msg
      example_post_created empty_server_fields example_config_fields sendWhatsAppAlert_def Let_def)

lemma example_post_pending:
  "\<exists>s' react. post_fire_events (example_config ''abc'') example_env example_post empty_server
     = (\<lparr>status = 200, payload = Stored True ''Event stored'' example_saved\<rparr>, s', Some react)"
  by (simp add: post_fire_events_def example_post_authorised example_post_msg
      example_post_created empty_server_fields example_config_fields sendWhatsAppAlert_def Let_def)

theorem store_failure_terminal_witness:
  "requireAuth (example_config ''abc'') example_post = None \<and>
   FireEvent_create (example_env\<lparr>db_failure := Some ''connection lost''\<rparr>)
     (build_event (example_env\<lparr>db_failure := Some ''connection lost''\<rparr>) example_post)
     (fire_events empty_server) = Inl (StoreError ''connection lost'') \<and>
   post_fire_events (example_config ''abc'') (example_env\<lparr>db_failure := Some ''connection lost''\<rparr>)
     example_post empty_server =
     (\<lparr>status = 500, payload = Failed False ''Failed to store event'' (StoreError ''connection lost'')\<rparr>,
      empty_server, None) \<and>
   outbox (fst (snd (post_fire_events (example_config ''abc'') example_env example_post
                       empty_server))) \<noteq> outbox empty_server \<and>
   (\<exists>saved. FireEvent_create example_env (build_event example_env example_post)
               (fire_events empty_server) = Inr (saved, fire_events empty_server @ [saved]))"
proof -
  have a: "FireEvent_create (example_env\<lparr>db_failure := Some ''connection lost''\<rparr>)
     (build_event (example_env\<lparr>db_failure := Some ''connection lost''\<rparr>) example_post)
     (fire_events empty_server) = Inl (StoreError ''connection lost'')"
    by (simp add: FireEvent_create_def example_post_event)
  from store_failure_terminal
         [of "example_config ''abc''" example_post
             "example_env\<lparr>db_failure := Some ''connection lost''\<rparr>" empty_server
             "StoreError ''connection lost''"]
       store_failure_terminal
         [of "example_config ''abc''" example_post example_env empty_server]
       example_post_authorised a example_post_outbox
  show ?thesis by blast
qed

subsection \<open>The notification\<close>

lemma pending_reaction:
  assumes "post_fire_events cfg e req s = (r, s', Some react)"
  shows "\<exists>saved msg.
           FireEvent_create e (build_event e req) (fire_events s) = Inr (saved, fire_events s @ [saved]) \<and>
           msgText (build_event e req) = Inr msg \<and>
           WA_TO cfg \<noteq> [] \<and>
           r = \<lparr>status = 200, payload = Stored True ''Event stored'' saved\<rparr> \<and>
           fire_events s' = fire_events s @ [saved] \<and>
           console s' = console s \<and>
           react = (\<lambda>net. case snd (sendWhatsAppAlert cfg (WA_TO cfg) msg) net of
                             Inr x \<Rightarrow> WhatsApp_sent x
                           | Inl err \<Rightarrow> WhatsApp_failed err)"
  using assms
  by (auto simp: post_fire_events_def Let_def
      split: option.splits sum.splits prod.splits if_splits dest!: FireEvent_create_Inr)

lemma promise_settles:
  "snd (sendWhatsAppAlert cfg to msg) net =
     (if WA_PHONE_NUMBER_ID cfg = [] \<or> WA_ACCESS_TOKEN cfg = [] \<or> to = [] then Inr Skipped
      else (case net of
              NetworkError m \<Rightarrow> Inl (FetchFailed m)
            | Answered ok parsed \<Rightarrow>
                (case parsed of
                   Inl m \<Rightarrow> Inl (BodyMalformed m)
                 | Inr data \<Rightarrow> if ok then Inr (Data data) else Inl (ApiError data))))"
  by (simp add: sendWhatsAppAlert_def split: fetch_outcome.splits sum.splits)

text \<open>
  C7. Whenever the create handler has called \<^verbatim>\<open>sendWhatsAppAlert\<close>, its response is
  already 200 with \<^verbatim>\<open>{ ok: true, message: "Event stored", event }\<close> for the record
  it stored, fixed before the network answers. Whatever the answer, the reaction on the
  promise leaves the collection and the sent messages alone and adds one line to the
  console; a network error, a body that is not JSON and a response that is not \<^verbatim>\<open>ok\<close>
  each give a "WhatsApp failed" line when the messaging API is configured (and the
  "skipped" line when it is not).
\<close>

theorem notification_failure_only_logged:
  assumes "post_fire_events cfg e req s = (r, s', Some react)"
  shows "(\<exists>saved. r = \<lparr>status = 200, payload = Stored True ''Event stored'' saved\<rparr> \<and>
                   fire_events s' = fire_events s @ [saved]) \<and>
         (\<forall>net. fire_events (settle net (Some react) s') = fire_events s' \<and>
                 outbox (settle net (Some react) s') = outbox s' \<and>
                 console (settle net (Some react) s') = console s' @ [react net]) \<and>
         (\<forall>m. react (NetworkError m) =
                 (if configured cfg then WhatsApp_failed (FetchFailed m) else WhatsApp_sent Skipped)) \<and>
         (\<forall>ok m. react (Answered ok (Inl m)) =
                 (if configured cfg then WhatsApp_failed (BodyMalformed m) else WhatsApp_sent Skipped)) \<and>
         (\<forall>data. react (Answered False (Inr data)) =
                 (if configured cfg then WhatsApp_failed (ApiError data) else WhatsApp_sent Skipped))"
proof -
  from pending_reaction [OF assms] obtain saved msg where
    r: "r = \<lparr>status = 200, payload = Stored True ''Event stored'' saved\<rparr>"
    and db: "fire_events s' = fire_events s @ [saved]"
    and to: "WA_TO cfg \<noteq> []"
    and react: "react = (\<lambda>net. case snd (sendWhatsAppAlert cfg (WA_TO cfg) msg) net of
                             Inr x \<Rightarrow> WhatsApp_sent x
                           | Inl err \<Rightarrow> WhatsApp_failed err)"
    by blast
  show ?thesis
    using r db to by (simp add: react promise_settles configured_def)
qed

theorem notification_failure_only_logged_witness:
  "\<exists>s' react.
     post_fire_events (example_config ''abc'') example_env example_post empty_server
       = (\<lparr>status = 200, payload = Stored True ''Event stored'' example_saved\<rparr>, s', Some react) \<and>
     fire_events (settle (NetworkError ''ECONNREFUSED'') (Some react) s') = fire_events s' \<and>
     console (settle (NetworkError ''ECONNREFUSED'') (Some react) s')
       = console s' @ [WhatsApp_failed (FetchFailed ''ECONNREFUSED'')] \<and>
     react (Answered False (Inr JNull)) = WhatsApp_failed (ApiError JNull) \<and>
     react (Answered True (Inl ''Unexpected token'')) = WhatsApp_failed (BodyMalformed ''Unexpected token'')"
proof -
  from example_post_pending obtain s' react where
    p: "post_fire_events (example_config ''abc'') example_env example_post empty_server
       = (\<lparr>status = 200, payload = Stored True ''Event stored'' example_saved\<rparr>, s', Some react)"
    by blast
  have c: "configured (example_config ''abc'')"
    by (simp add: configured_def example_config_fields)
  from notification_failure_only_logged [OF p] c p show ?thesis by simp
qed

subsection \<open>The message\<close>

lemma minus_not_digit: "is_digit c \<Longrightarrow> c \<noteq> CHR ''-''"
  by (auto simp: is_digit_def)

lemma two_decimals_intro:
  assumes "ds \<noteq> []" "list_all is_digit ds" "is_digit d1" "is_digit d2" "sg = [] \<or> sg = ''-''"
  shows "two_decimals (sg @ ds @ ''.'' @ [d1, d2])"
proof -
  obtain c cs where ds: "ds = c # cs" using assms(1) by (cases ds) auto
  with assms(2) have "c \<noteq> CHR ''-''" by (simp add: minus_not_digit)
  with assms ds show ?thesis by (auto simp: two_decimals_def Let_def)
qed

lemma split_last_two:
  assumes "3 \<le> length m"
  shows "\<exists>d1 d2. drop (length m - 2) m = [d1, d2] \<and> d1 \<in> set m \<and> d2 \<in> set m"
proof -
  have l: "length (drop (length m - 2) m) = 2" using assms by simp
  then obtain d1 d2 where d: "drop (length m - 2) m = [d1, d2]"
    by (cases "drop (length m - 2) m"; cases "tl (drop (length m - 2) m)") auto
  have "set (drop (length m - 2) m) \<subseteq> set m" by (rule set_drop_subset)
  with d show ?thesis by auto
qed

lemma toFixed2_form:
  assumes "\<bar>q\<bar> < 10 ^ 21"
  shows "\<exists>ds d1 d2. Number_toFixed (Fin q) 2 = (if q < 0 then ''-'' else []) @ ds @ ''.'' @ [d1, d2]
           \<and> ds \<noteq> [] \<and> list_all is_digit ds \<and> is_digit d1 \<and> is_digit d2"
proof -
  define n where "n = \<lfloor>\<bar>q\<bar> * 10 ^ 2 + 1 / 2\<rfloor>"
  define m where "m = dec_digits n"
  define m' where "m' = (if length m \<le> 2 then replicate (3 - length m) CHR ''0'' @ m else m)"
  from dec_digits_all [of n] have m: "m \<noteq> []" "list_all is_digit m" by (simp_all add: m_def)
  have z: "is_digit CHR ''0''" by (simp add: is_digit_def)
  have m'd: "list_all is_digit m'" using m z by (simp add: m'_def list_all_iff)
  have m'l: "3 \<le> length m'" using m by (cases m) (auto simp: m'_def)
  from split_last_two [OF m'l] obtain d1 d2 where
    d: "drop (length m' - 2) m' = [d1, d2]" "d1 \<in> set m'" "d2 \<in> set m'" by blast
  have t: "take (length m' - 2) m' \<noteq> []" using m'l by auto
  have td: "list_all is_digit (take (length m' - 2) m')"
    using m'd by (auto simp: list_all_iff dest: in_set_takeD)
  have eq: "Number_toFixed (Fin q) 2 =
      (if q < 0 then ''-'' else []) @ take (length m' - 2) m' @ ''.'' @ drop (length m' - 2) m'"
    using assms by (simp add: Let_def n_def m_def m'_def)
  show ?thesis
    using eq d t td m'd by (auto simp: list_all_iff)
qed

lemma toFixed2_two_decimals: "\<bar>q\<bar> < 10 ^ 21 \<Longrightarrow> two_decimals (Number_toFixed (Fin q) 2)"
proof -
  assume "\<bar>q\<bar> < 10 ^ 21"
  from toFixed2_form [OF this] obtain ds d1 d2 where
    "Number_toFixed (Fin q) 2 = (if q < 0 then ''-'' else []) @ ds @ ''.'' @ [d1, d2]"
    "ds \<noteq> []" "list_all is_digit ds" "is_digit d1" "is_digit d2" by blast
  then show ?thesis using two_decimals_intro [of ds d1 d2 "if q < 0 then ''-'' else []"] by simp
qed

lemma label_text_cases:
  "label_text b = Inr l \<Longrightarrow>
     (\<not> ToBoolean (optional_chain b ''label'') \<longrightarrow> l = ''-'') \<and>
     (\<forall>s. optional_chain b ''label'' = Some (JStr s) \<and> s \<noteq> [] \<longrightarrow> l = s)"
  by (auto simp: label_text_def split: option.splits if_splits)

lemma conf_text_cases:
  "conf_text b = Inr c \<Longrightarrow>
     (\<not> ToBoolean (optional_chain b ''conf'') \<longrightarrow> c = ''-'') \<and>
     (\<forall>q. optional_chain b ''conf'' = Some (JNum (Fin q)) \<and> q \<noteq> 0 \<and> \<bar>q\<bar> < 10 ^ 21 \<longrightarrow>
          c = Number_toFixed (Fin q) 2 \<and> two_decimals c)"
  by (auto simp: conf_text_def toFixed2_two_decimals simp del: Number_toFixed.simps
      split: option.splits if_splits sum.splits)

lemma image_text_eq:
  "image_text ev =
     (if image_url ev \<noteq> [] then image_url ev
      else if snapshot_filename ev \<noteq> [] then snapshot_filename ev else ''-'')"
  by (simp add: image_text_def)

text \<open>
  C3. When the message is built it is the fixed template around the event's timestamp
  and score, a label, a confidence and an image reference. The label is \<^verbatim>\<open>-\<close> when
  \<^verbatim>\<open>best\<close> is \<^verbatim>\<open>null\<close> or its \<^verbatim>\<open>label\<close> is missing or falsy, and is the label itself
  when that is a non-empty string. The confidence is \<^verbatim>\<open>-\<close> when \<^verbatim>\<open>best\<close> is \<^verbatim>\<open>null\<close>
  or its \<^verbatim>\<open>conf\<close> is missing or falsy (\<^verbatim>\<open>null\<close>, \<^verbatim>\<open>false\<close>, 0, the empty string),
  and is \<^verbatim>\<open>conf.toFixed(2)\<close>, a decimal with exactly two digits after the point, when
  \<^verbatim>\<open>conf\<close> is a finite number other than 0 and below \<open>10 ^ 21\<close> in magnitude. The image
  reference is \<^verbatim>\<open>image_url\<close> when that is not empty, else \<^verbatim>\<open>snapshot_filename\<close> when
  that is not empty, else \<^verbatim>\<open>-\<close>.
\<close>

theorem msgText_contents:
  assumes "msgText ev = Inr msg"
  shows "\<exists>label conf.
           msg = banner @ ''Time: '' @ timestamp ev @ newline @ ''Score: '' @ score ev @ newline @
                 ''Label: '' @ label @ newline @ ''Conf: '' @ conf @ newline @
                 ''Image: '' @ image_text ev \<and>
           (\<not> ToBoolean (optional_chain (best ev) ''label'') \<longrightarrow> label = ''-'') \<and>
           (\<forall>s. optional_chain (best ev) ''label'' = Some (JStr s) \<and> s \<noteq> [] \<longrightarrow> label = s) \<and>
           (\<not> ToBoolean (optional_chain (best ev) ''conf'') \<longrightarrow> conf = ''-'') \<and>
           (\<forall>q. optional_chain (best ev) ''conf'' = Some (JNum (Fin q)) \<and> q \<noteq> 0 \<and> \<bar>q\<bar> < 10 ^ 21 \<longrightarrow>
                conf = Number_toFixed (Fin q) 2 \<and> two_decimals conf) \<and>
           image_text ev =
             (if image_url ev \<noteq> [] then image_url ev
              else if snapshot_filename ev \<noteq> [] then snapshot_filename ev else ''-'')"
proof -
  from assms obtain l c where l: "label_text (best ev) = Inr l" and c: "conf_text (best ev) = Inr c"
    and msg: "msg = banner @ ''Time: '' @ timestamp ev @ newline @ ''Score: '' @ score ev @ newline @
                 ''Label: '' @ l @ newline @ ''Conf: '' @ c @ newline @ ''Image: '' @ image_text ev"
    by (auto simp: msgText_def split: sum.splits)
  from label_text_cases [OF l] conf_text_cases [OF c] msg image_text_eq [of ev]
  show ?thesis by blast
qed

text \<open>The message is built whenever neither \<^verbatim>\<open>label\<close> nor \<^verbatim>\<open>conf\<close> is an object
  or an array.\<close>

lemma ToString_primitive: "primitive (Some v) \<Longrightarrow> \<exists>t. ToString v = Inr t"
  by (cases v) (simp_all add: primitive_def)

lemma ToNumber_primitive: "primitive (Some v) \<Longrightarrow> \<exists>n. ToNumber v = Inr n"
  by (cases v) (simp_all add: primitive_def)

lemma msgText_defined:
  assumes "primitive (optional_chain (best ev) ''label'')"
    and "primitive (optional_chain (best ev) ''conf'')"
  shows "\<exists>msg. msgText ev = Inr msg"
proof -
  have "\<exists>l. label_text (best ev) = Inr l"
    using assms(1) ToString_primitive
    by (auto simp: label_text_def split: option.splits)
  moreover have "\<exists>c. conf_text (best ev) = Inr c"
    using assms(2) ToNumber_primitive
    by (fastforce simp: conf_text_def split: option.splits)
  ultimately show ?thesis by (auto simp: msgText_def)
qed

theorem msgText_contents_witness:
  "msgText (build_event example_env example_post) = Inr example_msg \<and>
   example_msg =
     banner @ ''Time: '' @ ''2024-01-01T00:00:00Z'' @ newline @ ''Score: '' @ ''0.9'' @ newline @
     ''Label: '' @ ''fire'' @ newline @ ''Conf: '' @ ''0.75'' @ newline @
     ''Image: '' @ ''http://x/img.jpg'' \<and>
   Number_toFixed (Fin (3 / 4)) 2 = ''0.75'' \<and> two_decimals ''0.75''"
proof -
  have a: "Number_toFixed (Fin (3 / 4)) 2 = ''0.75''" by code_simp
  have b: "two_decimals ''0.75''" by code_simp
  have c: "example_msg =
     banner @ ''Time: '' @ ''2024-01-01T00:00:00Z'' @ newline @ ''Score: '' @ ''0.9'' @ newline @
     ''Label: '' @ ''fire'' @ newline @ ''Conf: '' @ ''0.75'' @ newline @
     ''Image: '' @ ''http://x/img.jpg''"
    by (simp add: example_msg_def)
  from msgText_contents [OF example_post_msg [of example_env]] example_post_msg [of example_env] a b c
  show ?thesis by blast
qed

text \<open>
  The placeholder does not stand for every \<^verbatim>\<open>conf\<close> that is not numeric, nor two
  decimals for every numeric one. A \<^verbatim>\<open>conf\<close> that is the text \<^verbatim>\<open>abc\<close> is shown as
  \<^verbatim>\<open>NaN\<close>, which is neither the placeholder nor a decimal; a \<^verbatim>\<open>conf\<close> that is
  \<^verbatim>\<open>true\<close> is shown as \<^verbatim>\<open>1.00\<close>; and a \<^verbatim>\<open>conf\<close> that is the number 0 is shown
  as the placeholder. Nor is the placeholder kept for a missing label: a \<^verbatim>\<open>label\<close>
  that is the number 0 is shown as the placeholder too.
\<close>

theorem conf_line_counterexample:
  "msgText (build_event example_env
      (example_request None (Some (JObj [(''best'', JObj [(''conf'', JStr ''abc'')])]))))
     = Inr (banner @ ''Time: 2024-01-01T00:00:00.000Z'' @ newline @ ''Score: '' @ newline @
            ''Label: -'' @ newline @ ''Conf: NaN'' @ newline @ ''Image: -'') \<and>
   \<not> two_decimals ''NaN'' \<and>
   msgText (build_event example_env
      (example_request None (Some (JObj [(''best'', JObj [(''conf'', JBool True)])]))))
     = Inr (banner @ ''Time: 2024-01-01T00:00:00.000Z'' @ newline @ ''Score: '' @ newline @
            ''Label: -'' @ newline @ ''Conf: 1.00'' @ newline @ ''Image: -'') \<and>
   msgText (build_event example_env
      (example_request None (Some (JObj [(''best'', JObj [(''conf'', JNum (Fin 0))])]))))
     = Inr (banner @ ''Time: 2024-01-01T00:00:00.000Z'' @ newline @ ''Score: '' @ newline @
            ''Label: -'' @ newline @ ''Conf: -'' @ newline @ ''Image: -'') \<and>
   msgText (build_event example_env
      (example_request None
         (Some (JObj [(''best'', JObj [(''label'', JNum (Fin 0)), (''conf'', JNum (Fin (1 / 2)))])]))))
     = Inr (banner @ ''Time: 2024-01-01T00:00:00.000Z'' @ newline @ ''Score: '' @ newline @
            ''Label: -'' @ newline @ ''Conf: 0.50'' @ newline @ ''Image: -'')"
  by code_simp

subsection \<open>The limit of a listing\<close>

lemma effective_limit_default:
  "effective_limit None = Fin 50" "effective_limit (Some (QStr [])) = Fin 50"
  by (simp_all add: effective_limit_def)

lemma clamp_cases:
  "Math_max (Fin 1) (Math_min (Fin 200) n) =
     (case n of NaN \<Rightarrow> NaN | PosInf \<Rightarrow> Fin 200 | NegInf \<Rightarrow> Fin 1
      | Fin x \<Rightarrow> Fin (max 1 (min 200 x)))"
  by (cases n) simp_all

text \<open>The limit handed to the store is a number from 1 to 200, or it is \<open>NaN\<close>.\<close>

lemma effective_limit_range:
  "effective_limit q = NaN \<or> (\<exists>x. effective_limit q = Fin x \<and> 1 \<le> x \<and> x \<le> 200)"
  unfolding effective_limit_def clamp_cases by (auto split: jsnum.splits)

text \<open>With a whole number for a limit, an authorised listing answers 200 with at most
  that many records, at most 200, most recent first.\<close>

lemma get_fire_events_listing:
  assumes "requireAuth cfg req = None" and "db_failure e = None"
    and "whole_limit (effective_limit (query_limit req)) = Some n"
  shows "\<exists>events. get_fire_events cfg e req s =
            (\<lparr>status = 200, payload = Listed True (length events) events\<rparr>, s) \<and>
          length events \<le> n \<and> n \<le> 200 \<and>
          sorted (map (\<lambda>d. - received_at d) events)"
proof -
  let ?evs = "take n (sort_key (\<lambda>d. - received_at d) (fire_events s))"
  have g: "get_fire_events cfg e req s =
            (\<lparr>status = 200, payload = Listed True (length ?evs) ?evs\<rparr>, s)"
    using assms by (simp add: get_fire_events_def FireEvent_find_recent_def)
  have "sorted (take n (map (\<lambda>d. - received_at d) (sort_key (\<lambda>d. - received_at d) (fire_events s))))"
    by (intro sorted_wrt_take) simp
  then have srt: "sorted (map (\<lambda>d. - received_at d) ?evs)" by (simp add: take_map)
  from effective_limit_range [of "query_limit req"] assms(3) have "n \<le> 200"
    by (auto simp: whole_limit_def split: if_splits)
  with g srt show ?thesis by (intro exI [of _ ?evs]) simp
qed

lemma effective_limit_numeric:
  assumes "v \<noteq> QStr []" and "StringToNumber (query_ToString v) = Fin x"
  shows "effective_limit (Some v) = Fin (max 1 (min 200 x))"
  using assms by (simp add: effective_limit_def)

lemma effective_limit_not_NaN:
  "StringToNumber (query_ToString v) \<noteq> NaN \<Longrightarrow> effective_limit (Some v) \<noteq> NaN"
  unfolding effective_limit_def clamp_cases by (auto split: jsnum.splits)

text \<open>
  C2. The limit handed to the store is 50 when the \<^verbatim>\<open>limit\<close> parameter is missing or
  empty, and is the number the parameter converts to, clamped to the range from 1 to
  200, when it converts to a number (anything but \<open>NaN\<close>). When that limit is a whole number \<open>n\<close>, an
  authorised listing with a working database answers 200 with at most \<open>n\<close> records,
  \<open>n\<close> at most 200, in descending order of \<^verbatim>\<open>received_at\<close>, and a count equal to
  their number.
\<close>

theorem listing_limit:
  "(query_limit req = None \<or> query_limit req = Some (QStr []) \<longrightarrow>
      effective_limit (query_limit req) = Fin 50) \<and>
   (\<forall>v x. query_limit req = Some v \<and> v \<noteq> QStr [] \<and> StringToNumber (query_ToString v) = Fin x \<longrightarrow>
      effective_limit (query_limit req) = Fin (max 1 (min 200 x))) \<and>
   (\<forall>v. query_limit req = Some v \<and> StringToNumber (query_ToString v) \<noteq> NaN \<longrightarrow>
      (\<exists>x. effective_limit (query_limit req) = Fin x \<and> 1 \<le> x \<and> x \<le> 200)) \<and>
   (requireAuth cfg req = None \<and> db_failure e = None \<and>
    whole_limit (effective_limit (query_limit req)) = Some n \<longrightarrow>
      (\<exists>events. get_fire_events cfg e req s =
                  (\<lparr>status = 200, payload = Listed True (length events) events\<rparr>, s) \<and>
                length events \<le> n \<and> n \<le> 200 \<and>
                sorted (map (\<lambda>d. - received_at d) events)))"
proof (intro conjI impI allI)
  assume "query_limit req = None \<or> query_limit req = Some (QStr [])"
  then show "effective_limit (query_limit req) = Fin 50"
    using effective_limit_default by (elim disjE) simp_all
next
  fix v x
  assume "query_limit req = Some v \<and> v \<noteq> QStr [] \<and> StringToNumber (query_ToString v) = Fin x"
  then show "effective_limit (query_limit req) = Fin (max 1 (min 200 x))"
    by (simp add: effective_limit_numeric)
next
  fix v
  assume "query_limit req = Some v \<and> StringToNumber (query_ToString v) \<noteq> NaN"
  then show "\<exists>x. effective_limit (query_limit req) = Fin x \<and> 1 \<le> x \<and> x \<le> 200"
    using effective_limit_not_NaN [of v] effective_limit_range [of "Some v"] by auto
next
  assume "requireAuth cfg req = None \<and> db_failure e = None \<and>
    whole_limit (effective_limit (query_limit req)) = Some n"
  then show "\<exists>events. get_fire_events cfg e req s =
                  (\<lparr>status = 200, payload = Listed True (length events) events\<rparr>, s) \<and>
                length events \<le> n \<and> n \<le> 200 \<and>
                sorted (map (\<lambda>d. - received_at d) events)"
    using get_fire_events_listing [of cfg req e n s] by blast
qed

lemma round_double_2: "round_double 2 = Fin 2"
  by (simp add: round_double_def round_pos_def floor_log2_def bit_length.simps pow_int_def
      round_half_even_def Let_def)

lemma StringToNumber_2: "StringToNumber ''2'' = Fin 2"
  by (simp add: StringToNumber_def trim_def white_space_def non_decimal_def split_sign_def
      unsigned_decimal_def is_digit_def digit_value_def integer_literal_def pow_int_def round_double_2 Let_def)

lemma example_limit: "effective_limit (Some (QStr ''2'')) = Fin 2"
  by (simp add: effective_limit_def StringToNumber_2)

theorem listing_limit_witness:
  "effective_limit None = Fin 50 \<and>
   StringToNumber (query_ToString (QStr ''2'')) = Fin 2 \<and>
   effective_limit (Some (QStr ''2'')) = Fin (max 1 (min 200 2)) \<and>
   requireAuth (example_config []) example_listing = None \<and>
   db_failure example_env = None \<and>
   whole_limit (effective_limit (query_limit example_listing)) = Some 2 \<and>
   (\<exists>events. get_fire_events (example_config []) example_env example_listing example_collection =
                  (\<lparr>status = 200, payload = Listed True (length events) events\<rparr>, example_collection) \<and>
                length events \<le> 2 \<and>
                sorted (map (\<lambda>d. - received_at d) events))"
proof -
  have a: "StringToNumber (query_ToString (QStr ''2'')) = Fin 2" by (simp add: StringToNumber_2)
  have b: "requireAuth (example_config []) example_listing = None"
    by (simp add: requireAuth_def example_config_fields)
  have c: "db_failure example_env = None" by (simp add: example_env_def)
  have d: "whole_limit (effective_limit (query_limit example_listing)) = Some 2"
    by (simp add: example_listing_def example_limit whole_limit_def)
  have q: "query_limit example_listing = Some (QStr ''2'')" by (simp add: example_listing_def)
  have n: "query_limit (example_request None None) = None" by (simp add: example_request_def)
  have l: "effective_limit (Some (QStr ''2'')) = Fin (max 1 (min 200 2))"
    by (simp add: example_limit)
  from listing_limit [of example_listing "example_config []" example_env 2 example_collection]
    b c d
  have e: "\<exists>events. get_fire_events (example_config []) example_env example_listing example_collection =
                  (\<lparr>status = 200, payload = Listed True (length events) events\<rparr>, example_collection) \<and>
                length events \<le> 2 \<and>
                sorted (map (\<lambda>d. - received_at d) events)"
    by blast
  from listing_limit [of "example_request None None"] n
  have f: "effective_limit None = Fin 50" by simp
  from a b c d e f l show ?thesis by blast
qed

text \<open>
  A \<^verbatim>\<open>limit\<close> that is not numeric is not replaced by 50: \<^verbatim>\<open>Number("abc")\<close> is
  \<open>NaN\<close>, which \<^verbatim>\<open>Math.min\<close> and \<^verbatim>\<open>Math.max\<close> pass on, so the limit handed to the
  store is \<open>NaN\<close>, outside the range from 1 to 200.
\<close>

theorem limit_not_numeric_counterexample:
  "effective_limit (Some (QStr ''abc'')) = NaN \<and>
   effective_limit (Some (QStr ''abc'')) \<noteq> Fin 50"
  by code_simp

end
